theory Spec2Isabelle
  imports Complex_Main
begin

section \<open>Trend codes and direction labels\<close>

text \<open>
  \<^verbatim>\<open>trendArrowToString\<close> (librelink client) is a \<^verbatim>\<open>switch\<close> over a Go \<^verbatim>\<open>int\<close>
  with seven cases and a default. Every Go \<^verbatim>\<open>int\<close> is an integer, so the function is
  modelled on \<open>int\<close>; the cases are kept in the order of the source.
\<close>

definition trendArrowToString :: "int \<Rightarrow> string" where
  "trendArrowToString arrow =
     (if arrow = 1 then ''DoubleUp''
      else if arrow = 2 then ''SingleUp''
      else if arrow = 3 then ''FortyFiveUp''
      else if arrow = 4 then ''Flat''
      else if arrow = 5 then ''FortyFiveDown''
      else if arrow = 6 then ''SingleDown''
      else if arrow = 7 then ''DoubleDown''
      else ''Unknown'')"

text \<open>
  \<^verbatim>\<open>convertTrendArrow\<close> (nightscout client) is a \<^verbatim>\<open>switch\<close> over the label string.
\<close>

definition convertTrendArrow :: "string \<Rightarrow> string" where
  "convertTrendArrow arrow =
     (if arrow = ''DoubleUp'' then ''DoubleUp''
      else if arrow = ''SingleUp'' then ''SingleUp''
      else if arrow = ''FortyFiveUp'' then ''FortyFiveUp''
      else if arrow = ''Flat'' then ''Flat''
      else if arrow = ''FortyFiveDown'' then ''FortyFiveDown''
      else if arrow = ''SingleDown'' then ''SingleDown''
      else if arrow = ''DoubleDown'' then ''DoubleDown''
      else ''NONE'')"

text \<open>The seven labels of the closed enumeration, in the order of the codes 1 to 7.\<close>

definition trend_labels :: "string list" where
  "trend_labels =
     [''DoubleUp'', ''SingleUp'', ''FortyFiveUp'', ''Flat'',
      ''FortyFiveDown'', ''SingleDown'', ''DoubleDown'']"


section \<open>Go runtime values: time\<close>

text \<open>
  The Go standard library is outside the repository. Of package \<^verbatim>\<open>time\<close> the program
  uses \<^verbatim>\<open>ParseInLocation\<close>, \<^verbatim>\<open>Time.UnixMilli\<close>, \<^verbatim>\<open>Time.Format(time.RFC3339)\<close> and
  \<^verbatim>\<open>time.Since\<close>. A \<^verbatim>\<open>time.Time\<close> is an instant together with a location; the
  instant is kept as the number of nanoseconds since 1970-01-01T00:00:00Z (Go splits it into
  seconds and a nanosecond part in 0..999999999, which \<open>unixSec\<close> and \<open>nsec\<close> read
  back), and a location gives, for every instant in Unix seconds, the offset of its zone
  east of UTC in seconds.
\<close>

type_synonym location = "int \<Rightarrow> int"

record go_time =
  unix_nanos :: int
  loc :: location

definition unixSec :: "go_time \<Rightarrow> int" where
  "unixSec t = unix_nanos t div 1000000000"

definition nsec :: "go_time \<Rightarrow> int" where
  "nsec t = unix_nanos t mod 1000000000"

text \<open>Go's \<^verbatim>\<open>int64\<close> arithmetic wraps around; \<open>wrap64\<close> is the two's complement reading.\<close>

definition wrap64 :: "int \<Rightarrow> int" where
  "wrap64 x = (x + 2 ^ 63) mod 2 ^ 64 - 2 ^ 63"

text \<open>
  \<^verbatim>\<open>func (t Time) UnixMilli() int64 { return t.unixSec()*1e3 + int64(t.nsec())/1e6 }\<close>
\<close>

definition UnixMilli :: "go_time \<Rightarrow> int" where
  "UnixMilli t = wrap64 (unixSec t * 1000 + nsec t div 1000000)"



text \<open>
  \<^verbatim>\<open>appendInt(b, x, width)\<close>: the decimal digits of \<open>x\<close>, padded with zeros to
  \<open>width\<close>, after a minus sign when \<open>x\<close> is negative.
\<close>

fun decimal :: "nat \<Rightarrow> string" where
  "decimal n =
     (if n < 10 then [''0123456789'' ! n]
      else decimal (n div 10) @ [''0123456789'' ! (n mod 10)])"

declare decimal.simps [simp del]

definition appendInt :: "int \<Rightarrow> nat \<Rightarrow> string" where
  "appendInt x width =
     (let ds = decimal (nat \<bar>x\<bar>)
      in (if x < 0 then ''-'' else []) @ replicate (width - length ds) (CHR ''0'') @ ds)"

text \<open>
  The proleptic Gregorian date of a day number (days since 1970-01-01), as year, month
  and day.
\<close>

definition civil_from_days :: "int \<Rightarrow> int \<times> int \<times> int" where
  "civil_from_days days =
     (let z = days + 719468;
          era = z div 146097;
          doe = z mod 146097;
          yoe = (doe - doe div 1460 + doe div 36524 - doe div 146096) div 365;
          doy = doe - (365 * yoe + yoe div 4 - yoe div 100);
          mp = (5 * doy + 2) div 153;
          d = doy - (153 * mp + 2) div 5 + 1;
          m = (if mp < 10 then mp + 3 else mp - 9);
          y = yoe + era * 400
      in (if m \<le> 2 then y + 1 else y, m, d))"

text \<open>
  The zone of layout element \<^verbatim>\<open>Z07:00\<close>: \<^verbatim>\<open>Z\<close> for offset 0, otherwise sign, hours
  and minutes; Go's \<^verbatim>\<open>offset / 60\<close> truncates towards zero.
\<close>

definition format_zone :: "int \<Rightarrow> string" where
  "format_zone offset =
     (if offset = 0 then ''Z''
      else let zone = (if offset < 0 then (- offset) div 60 else offset div 60)
           in (if offset < 0 \<and> zone \<noteq> 0 then ''-'' else ''+'')
              @ appendInt (zone div 60) 2 @ '':'' @ appendInt (zone mod 60) 2)"

text \<open>
  The text of layout \<^verbatim>\<open>time.RFC3339 = "2006-01-02T15:04:05Z07:00"\<close> for the second
  \<open>sec\<close> (Unix seconds) seen in a zone \<open>offset\<close> seconds east of UTC. The layout has no
  fractional seconds.
\<close>

definition rfc3339_text :: "int \<Rightarrow> int \<Rightarrow> string" where
  "rfc3339_text sec offset =
     (let a = sec + offset;
          (y, m, d) = civil_from_days (a div 86400);
          s = a mod 86400
      in appendInt y 4 @ ''-'' @ appendInt m 2 @ ''-'' @ appendInt d 2 @ ''T''
         @ appendInt (s div 3600) 2 @ '':'' @ appendInt (s mod 3600 div 60) 2 @ '':''
         @ appendInt (s mod 60) 2 @ format_zone offset)"

text \<open>\<^verbatim>\<open>t.Format(time.RFC3339)\<close>: the zone is the one the location has at the instant.\<close>

definition Format_RFC3339 :: "go_time \<Rightarrow> string" where
  "Format_RFC3339 t = rfc3339_text (unixSec t) (loc t (unixSec t))"

text \<open>
  \<^verbatim>\<open>time.Since(t)\<close> is \<^verbatim>\<open>time.Now().Sub(t)\<close>, a \<^verbatim>\<open>Duration\<close> in nanoseconds that
  saturates at the ends of \<^verbatim>\<open>int64\<close>. The current time is an argument.
\<close>

definition time_Since :: "go_time \<Rightarrow> go_time \<Rightarrow> int" where
  "time_Since now t = max (- (2 ^ 63)) (min (2 ^ 63 - 1) (unix_nanos now - unix_nanos t))"

definition Minute :: int where
  "Minute = 60 * 1000000000"

definition RFC3339 :: string where
  "RFC3339 = ''2006-01-02T15:04:05Z07:00''"

section \<open>HTTP, JSON and the outside world\<close>

text \<open>
  A request as the program builds it. \<^verbatim>\<open>Header.Set\<close> replaces the value stored under a
  key (Go also canonicalises the spelling of the key, which no property here depends on).
\<close>

record http_request =
  req_method :: string
  req_url :: string
  req_header :: "(string \<times> string) list"
  req_body :: string

definition Header_Set :: "string \<Rightarrow> string \<Rightarrow> http_request \<Rightarrow> http_request" where
  "Header_Set k v req =
     req\<lparr>req_header := filter (\<lambda>kv. fst kv \<noteq> k) (req_header req) @ [(k, v)]\<rparr>"

text \<open>
  What \<^verbatim>\<open>httpClient.Do\<close> gives back: a transport error or a response, of which the
  program reads the status code and the body (\<^verbatim>\<open>io.ReadAll\<close>, its error ignored).
\<close>

datatype http_reply = Unreachable string | Response int string

text \<open>Everything the program does to the outside: requests sent (oldest first) and log lines.\<close>

datatype log_line =
    LogFetching
  | LogNoConnections
  | LogNoReading
  | LogGlucoseReading string
  | LogStaleWarning
  | LogPosting string
  | LogPosted

record world =
  sent :: "http_request list"
  logged :: "log_line list"

definition log_Println :: "log_line \<Rightarrow> world \<Rightarrow> world" where
  "log_Println l w = w\<lparr>logged := logged w @ [l]\<rparr>"

text \<open>The structures of the upstream API (nested Go structs, flattened).\<close>

record loginRequest =
  Email :: string
  Password :: string

record loginResponse =
  login_Status :: int
  login_User_ID :: string
  login_User_Email :: string
  login_AuthTicket_Token :: string
  login_AuthTicket_ExpiresAt :: int

record connectionData =
  data_PatientID :: string
  data_FirstName :: string
  data_LastName :: string
  data_Sensor_DeviceID :: string
  data_Sensor_Serial :: string

record connectionsResponse =
  conn_Status :: int
  conn_Data :: "connectionData list"

record glucoseResponse =
  glucose_Status :: int
  gm_Value :: real
  gm_ValueInMgPerDl :: real
  gm_TrendArrow :: int
  gm_Timestamp :: string

text \<open>\<^verbatim>\<open>nightscout.Entry\<close>; \<open>Date\<close> is an \<^verbatim>\<open>int64\<close>.\<close>

record Entry =
  Type :: string
  SGV :: real
  Direction :: string
  Device :: string
  Date :: int
  DateString :: string

text \<open>
  The library functions the program calls, as parameters: whether \<^verbatim>\<open>http.NewRequest\<close>
  accepts a URL, the transport (its answer may depend on the requests sent before), the
  JSON codecs (\<open>None\<close> is an error), SHA-256 in hexadecimal, \<^verbatim>\<open>time.ParseInLocation\<close>
  (layout, value, location; \<open>None\<close> is an error) and \<^verbatim>\<open>time.Local\<close>.
  \<^verbatim>\<open>json.Marshal\<close> of the login request, a struct of two strings, cannot fail.
\<close>

record runtime =
  http_NewRequest_ok :: "string \<Rightarrow> bool"
  httpClient_Do :: "http_request list \<Rightarrow> http_request \<Rightarrow> http_reply"
  json_Marshal_login :: "loginRequest \<Rightarrow> string"
  json_Unmarshal_login :: "string \<Rightarrow> loginResponse option"
  json_Unmarshal_connections :: "string \<Rightarrow> connectionsResponse option"
  json_Unmarshal_glucose :: "string \<Rightarrow> glucoseResponse option"
  json_Marshal_entries :: "Entry list \<Rightarrow> string option"
  sha256_hex :: "string \<Rightarrow> string"
  time_ParseInLocation :: "string \<Rightarrow> string \<Rightarrow> location \<Rightarrow> go_time option"
  time_Local :: location

definition Do :: "runtime \<Rightarrow> http_request \<Rightarrow> world \<Rightarrow> http_reply \<times> world" where
  "Do rt req w = (httpClient_Do rt (sent w) req, w\<lparr>sent := sent w @ [req]\<rparr>)"

section \<open>Errors and outcomes\<close>

text \<open>
  The program's errors are messages built with \<^verbatim>\<open>fmt.Errorf\<close>. A \<open>cause\<close> is the
  message, an \<open>error\<close> says which operation gave it:
  \<^item> \<open>RequestNotCreated\<close>: "failed to create ... request";
  \<^item> \<open>TransportFailed\<close>: "... request failed: %w", the error of \<^verbatim>\<open>httpClient.Do\<close>;
  \<^item> \<open>HTTPStatus\<close>: "... failed with (HTTP) status %d: %s";
  \<^item> \<open>DecodeFailed\<close>: "failed to decode ... response";
  \<^item> \<open>APIStatus\<close>: "login failed with API status: %d";
  \<^item> \<open>MarshalFailed\<close>: "failed to marshal entry".

  \<open>AuthError\<close> is an error of \<^verbatim>\<open>Login\<close>, \<open>FetchError\<close> one of \<^verbatim>\<open>GetConnections\<close> or
  \<^verbatim>\<open>GetLatestReading\<close>, \<open>DeliveryError\<close> one of \<^verbatim>\<open>PostGlucoseReading\<close>;
  \<open>NotAuthenticatedError\<close> is "not authenticated, call Login() first", \<open>TimestampError\<close>
  is "unable to parse timestamp: %s", \<open>InvalidInputError\<close> is "reading is nil".
\<close>

datatype cause =
    RequestNotCreated
  | TransportFailed string
  | HTTPStatus int string
  | DecodeFailed
  | APIStatus int
  | MarshalFailed

datatype error =
    UnsupportedRegion string
  | NotAuthenticatedError
  | AuthError cause
  | FetchError cause
  | TimestampError string
  | InvalidInputError
  | DeliveryError cause

text \<open>A call returns or panics; a returned Go \<^verbatim>\<open>error\<close> is \<open>None\<close> for \<^verbatim>\<open>nil\<close>.\<close>

datatype 'a outcome = Returns 'a | Panics

section \<open>The LibreLink Up client\<close>

text \<open>
  \<^verbatim>\<open>librelink.Client\<close>. The \<^verbatim>\<open>httpClient\<close> field (timeout, cookie jar) belongs to the
  transport of the runtime.
\<close>

record Client =
  baseURL :: string
  username :: string
  password :: string
  authToken :: string
  accountID :: string

record Connection =
  PatientID :: string
  FirstName :: string
  LastName :: string
  SensorState :: int

record GlucoseReading =
  Value :: real
  Unit :: string
  Timestamp :: go_time
  TrendArrow :: string

definition appVersion :: string where "appVersion = ''4.17.0''"
definition appProduct :: string where "appProduct = ''llu.ios''"
definition contentType :: string where "contentType = ''application/json''"

definition endpoints :: "string \<rightharpoonup> string" where
  "endpoints = map_of
     [(''AE'', ''https://api-ae.libreview.io''),
      (''AP'', ''https://api-ap.libreview.io''),
      (''AU'', ''https://api-au.libreview.io''),
      (''CA'', ''https://api-ca.libreview.io''),
      (''DE'', ''https://api-de.libreview.io''),
      (''EU'', ''https://api-eu.libreview.io''),
      (''EU2'', ''https://api-eu2.libreview.io''),
      (''FR'', ''https://api-fr.libreview.io''),
      (''JP'', ''https://api-jp.libreview.io''),
      (''US'', ''https://api-us.libreview.io''),
      (''LA'', ''https://api-la.libreview.io''),
      (''RU'', ''https://api-ru.libreview.io''),
      (''CN'', ''https://api-cn.libreview.io'')]"

text \<open>\<^verbatim>\<open>NewClient\<close>: the token and the account id start empty (Go's zero value).\<close>

definition NewClient :: "string \<Rightarrow> string \<Rightarrow> string \<Rightarrow> error + Client" where
  "NewClient region user pass =
     (case endpoints region of
        None \<Rightarrow> Inl (UnsupportedRegion region)
      | Some url \<Rightarrow>
          Inr \<lparr>baseURL = url, username = user, password = pass,
               authToken = [], accountID = []\<rparr>)"

definition setHeaders :: "runtime \<Rightarrow> Client \<Rightarrow> http_request \<Rightarrow> http_request" where
  "setHeaders rt c req =
     (let req1 = Header_Set ''Content-Type'' contentType req;
          req2 = Header_Set ''Accept'' contentType req1;
          req3 = Header_Set ''product'' appProduct req2;
          req4 = Header_Set ''version'' appVersion req3
      in if accountID c \<noteq> [] \<and> authToken c \<noteq> []
         then Header_Set ''account-id'' (sha256_hex rt (accountID c)) req4
         else req4)"

text \<open>The request \<^verbatim>\<open>Login\<close> builds (lines 137 to 155 of the client).\<close>

definition login_request :: "runtime \<Rightarrow> Client \<Rightarrow> http_request" where
  "login_request rt c =
     setHeaders rt c
       \<lparr>req_method = ''POST'', req_url = baseURL c @ ''/llu/auth/login'', req_header = [],
        req_body = json_Marshal_login rt \<lparr>Email = username c, Password = password c\<rparr>\<rparr>"

text \<open>
  \<^verbatim>\<open>Login\<close>. The DEBUG prints change nothing, except the last but one: it slices
  \<^verbatim>\<open>c.authToken[:20]\<close>, which panics when the token has fewer than 20 bytes; the two
  fields are assigned before it.
\<close>

definition Login :: "runtime \<Rightarrow> Client \<Rightarrow> world \<Rightarrow> error option outcome \<times> Client \<times> world" where
  "Login rt c w =
     (if \<not> http_NewRequest_ok rt (baseURL c @ ''/llu/auth/login'')
      then (Returns (Some (AuthError RequestNotCreated)), c, w)
      else
        (case Do rt (login_request rt c) w of
          (Unreachable m, w') \<Rightarrow> (Returns (Some (AuthError (TransportFailed m))), c, w')
        | (Response status body, w') \<Rightarrow>
            if status \<noteq> 200
            then (Returns (Some (AuthError (HTTPStatus status body))), c, w')
            else
              (case json_Unmarshal_login rt body of
                 None \<Rightarrow> (Returns (Some (AuthError DecodeFailed)), c, w')
               | Some loginResp \<Rightarrow>
                   if login_Status loginResp \<noteq> 0
                   then (Returns (Some (AuthError (APIStatus (login_Status loginResp)))), c, w')
                   else
                     let c' = c\<lparr>authToken := login_AuthTicket_Token loginResp,
                                 accountID := login_User_ID loginResp\<rparr>
                     in if length (authToken c') < 20
                        then (Panics, c', w')
                        else (Returns None, c', w'))))"

definition connections_request :: "runtime \<Rightarrow> Client \<Rightarrow> http_request" where
  "connections_request rt c =
     Header_Set ''Authorization'' (''Bearer '' @ authToken c)
       (setHeaders rt c
          \<lparr>req_method = ''GET'', req_url = baseURL c @ ''/llu/connections'', req_header = [],
           req_body = []\<rparr>)"

definition GetConnections :: "runtime \<Rightarrow> Client \<Rightarrow> world \<Rightarrow> (error + Connection list) \<times> world" where
  "GetConnections rt c w =
     (if authToken c = [] then (Inl NotAuthenticatedError, w)
      else if \<not> http_NewRequest_ok rt (baseURL c @ ''/llu/connections'')
      then (Inl (FetchError RequestNotCreated), w)
      else
        (case Do rt (connections_request rt c) w of
          (Unreachable m, w') \<Rightarrow> (Inl (FetchError (TransportFailed m)), w')
        | (Response status body, w') \<Rightarrow>
            if status \<noteq> 200 then (Inl (FetchError (HTTPStatus status body)), w')
            else
              (case json_Unmarshal_connections rt body of
                None \<Rightarrow> (Inl (FetchError DecodeFailed), w')
              | Some connResp \<Rightarrow>
                  if length (conn_Data connResp) = 0
                  then (Inr [\<lparr>PatientID = accountID c, FirstName = ''Self'', LastName = [],
                              SensorState = 0\<rparr>], w')
                  else (Inr (map (\<lambda>conn. \<lparr>PatientID = data_PatientID conn,
                                           FirstName = data_FirstName conn,
                                           LastName = data_LastName conn,
                                           SensorState = 0\<rparr>) (conn_Data connResp)), w'))))"

text \<open>
  \<^verbatim>\<open>parseLibreLinkTimestamp\<close>: the loop over the three layouts returns at the first one
  that \<^verbatim>\<open>time.ParseInLocation\<close> accepts in \<^verbatim>\<open>time.Local\<close>; after the loop, the error.
\<close>

definition formats :: "string list" where
  "formats = [''1/2/2006 3:04:05 PM'', ''01/02/2006 15:04:05'', RFC3339]"

fun try_formats :: "runtime \<Rightarrow> string \<Rightarrow> string list \<Rightarrow> error + go_time" where
  "try_formats rt timestamp [] = Inl (TimestampError timestamp)"
| "try_formats rt timestamp (format # rest) =
     (case time_ParseInLocation rt format timestamp (time_Local rt) of
        Some t \<Rightarrow> Inr t
      | None \<Rightarrow> try_formats rt timestamp rest)"

definition parseLibreLinkTimestamp :: "runtime \<Rightarrow> string \<Rightarrow> error + go_time" where
  "parseLibreLinkTimestamp rt timestamp = try_formats rt timestamp formats"

definition glucose_request :: "runtime \<Rightarrow> Client \<Rightarrow> string \<Rightarrow> http_request" where
  "glucose_request rt c patientID =
     Header_Set ''Authorization'' (''Bearer '' @ authToken c)
       (setHeaders rt c
          \<lparr>req_method = ''GET'',
           req_url = baseURL c @ ''/llu/connections/'' @ patientID @ ''/graph'',
           req_header = [], req_body = []\<rparr>)"

text \<open>\<^verbatim>\<open>GetLatestReading\<close>; the returned pointer is \<open>Some\<close> of the reading.\<close>

definition GetLatestReading ::
  "runtime \<Rightarrow> Client \<Rightarrow> string \<Rightarrow> world \<Rightarrow> (error + GlucoseReading option) \<times> world" where
  "GetLatestReading rt c patientID w =
     (if authToken c = [] then (Inl NotAuthenticatedError, w)
      else if \<not> http_NewRequest_ok rt (baseURL c @ ''/llu/connections/'' @ patientID @ ''/graph'')
      then (Inl (FetchError RequestNotCreated), w)
      else
        (case Do rt (glucose_request rt c patientID) w of
          (Unreachable m, w') \<Rightarrow> (Inl (FetchError (TransportFailed m)), w')
        | (Response status body, w') \<Rightarrow>
            if status \<noteq> 200 then (Inl (FetchError (HTTPStatus status body)), w')
            else
              (case json_Unmarshal_glucose rt body of
                None \<Rightarrow> (Inl (FetchError DecodeFailed), w')
              | Some measurement \<Rightarrow>
                  (case parseLibreLinkTimestamp rt (gm_Timestamp measurement) of
                     Inl err \<Rightarrow> (Inl err, w')
                   | Inr timestamp \<Rightarrow>
                       (Inr (Some \<lparr>Value = gm_ValueInMgPerDl measurement, Unit = ''mg/dL'',
                                   Timestamp = timestamp,
                                   TrendArrow = trendArrowToString (gm_TrendArrow measurement)\<rparr>),
                        w')))))"

section \<open>The Nightscout client\<close>

record NightscoutClient =
  ns_baseURL :: string
  ns_apiToken :: string

definition HasPrefix :: "string \<Rightarrow> string \<Rightarrow> bool" where
  "HasPrefix s p = (take (length p) s = p)"

text \<open>The entry of lines 50 to 57 and the base URL of lines 66 to 75 of \<^verbatim>\<open>PostGlucoseReading\<close>.\<close>

definition make_entry :: "GlucoseReading \<Rightarrow> Entry" where
  "make_entry reading =
     \<lparr>Type = ''sgv'', SGV = Value reading,
      Direction = convertTrendArrow (TrendArrow reading),
      Device = ''nightscout-librelink-up-go'',
      Date = UnixMilli (Timestamp reading),
      DateString = Format_RFC3339 (Timestamp reading)\<rparr>"

definition effective_baseURL :: "string \<Rightarrow> string" where
  "effective_baseURL base =
     (if \<not> HasPrefix base ''http://'' \<and> \<not> HasPrefix base ''https://''
      then (if CHR '':'' \<in> set base then ''http://'' @ base else ''https://'' @ base)
      else base)"

definition entries_request :: "NightscoutClient \<Rightarrow> string \<Rightarrow> http_request" where
  "entries_request c reqBody =
     Header_Set ''X-Forwarded-Proto'' ''https''
       (Header_Set ''api-secret'' (ns_apiToken c)
          (Header_Set ''Content-Type'' ''application/json''
             \<lparr>req_method = ''POST'',
              req_url = effective_baseURL (ns_baseURL c) @ ''/api/v1/entries'',
              req_header = [], req_body = reqBody\<rparr>))"

text \<open>\<^verbatim>\<open>PostGlucoseReading\<close>; the pointer argument is an option, \<open>None\<close> for \<^verbatim>\<open>nil\<close>.\<close>

definition PostGlucoseReading ::
  "runtime \<Rightarrow> NightscoutClient \<Rightarrow> GlucoseReading option \<Rightarrow> world \<Rightarrow> error option \<times> world" where
  "PostGlucoseReading rt c reading w =
     (case reading of
        None \<Rightarrow> (Some InvalidInputError, w)
      | Some r \<Rightarrow>
          (case json_Marshal_entries rt [make_entry r] of
             None \<Rightarrow> (Some (DeliveryError MarshalFailed), w)
           | Some reqBody \<Rightarrow>
               let url = effective_baseURL (ns_baseURL c) @ ''/api/v1/entries'';
                   w1 = log_Println (LogPosting url) w
               in if \<not> http_NewRequest_ok rt url
                  then (Some (DeliveryError RequestNotCreated), w1)
                  else
                    (case Do rt (entries_request c reqBody) w1 of
                       (Unreachable m, w') \<Rightarrow> (Some (DeliveryError (TransportFailed m)), w')
                     | (Response status body, w') \<Rightarrow>
                         if status < 200 \<or> status \<ge> 300
                         then (Some (DeliveryError (HTTPStatus status body)), w')
                         else (None, w'))))"

section \<open>One sync cycle\<close>

text \<open>
  \<^verbatim>\<open>syncGlucoseData\<close>. The current time of \<^verbatim>\<open>time.Since\<close> is the argument \<open>now\<close>. A panic
  of \<^verbatim>\<open>Login\<close> is not recovered.
\<close>

definition syncGlucoseData ::
  "runtime \<Rightarrow> go_time \<Rightarrow> Client \<Rightarrow> NightscoutClient \<Rightarrow> world
     \<Rightarrow> error option outcome \<times> Client \<times> world" where
  "syncGlucoseData rt now llClient nsClient w =
     (case Login rt llClient (log_Println LogFetching w) of
        (Panics, ll, w1) \<Rightarrow> (Panics, ll, w1)
      | (Returns (Some err), ll, w1) \<Rightarrow> (Returns (Some err), ll, w1)
      | (Returns None, ll, w1) \<Rightarrow>
          (case GetConnections rt ll w1 of
             (Inl err, w2) \<Rightarrow> (Returns (Some err), ll, w2)
           | (Inr connections, w2) \<Rightarrow>
               if length connections = 0
               then (Returns None, ll, log_Println LogNoConnections w2)
               else
                 (case GetLatestReading rt ll (PatientID (connections ! 0)) w2 of
                    (Inl err, w3) \<Rightarrow> (Returns (Some err), ll, w3)
                  | (Inr None, w3) \<Rightarrow> (Returns None, ll, log_Println LogNoReading w3)
                  | (Inr (Some reading), w3) \<Rightarrow>
                      let w4 = log_Println
                                 (LogGlucoseReading (Format_RFC3339 (Timestamp reading))) w3;
                          w5 = (if time_Since now (Timestamp reading) > 15 * Minute
                                then log_Println LogStaleWarning w4 else w4)
                      in (case PostGlucoseReading rt nsClient (Some reading) w5 of
                            (Some err, w6) \<Rightarrow> (Returns (Some err), ll, w6)
                          | (None, w6) \<Rightarrow> (Returns None, ll, log_Println LogPosted w6)))))"

section \<open>A concrete run\<close>

text \<open>
  A runtime for evaluating the program on concrete inputs: the upstream account
  \<open>ACC123\<close> follows the patient \<open>P1\<close>, whose latest measurement is 118 mg/dL, trend code
  4, at "11/19/2024 3:14:29 PM"; the local zone is one hour east of UTC; the sink listens
  on \<open>nightscout:1337\<close>. Bodies are short stand-ins for the JSON texts. The parser knows
  one value of the first layout and one of the second.
\<close>

definition example_local :: location where
  "example_local = (\<lambda>sec. 3600)"

definition example_login :: loginResponse where
  "example_login =
     \<lparr>login_Status = 0, login_User_ID = ''ACC123'', login_User_Email = ''user@example.com'',
      login_AuthTicket_Token = ''0123456789abcdefghijklmn'', login_AuthTicket_ExpiresAt = 0\<rparr>"

definition example_runtime :: runtime where
  "example_runtime =
     \<lparr>http_NewRequest_ok = (\<lambda>url. True),
      httpClient_Do = (\<lambda>history req.
        if req_url req = ''https://api-eu.libreview.io/llu/auth/login''
        then Response 200 ''login''
        else if req_url req = ''https://api-eu.libreview.io/llu/connections''
        then Response 200 ''connections''
        else if req_url req = ''https://api-eu.libreview.io/llu/connections/P1/graph''
        then Response 200 ''graph''
        else if req_url req = ''http://nightscout:1337/api/v1/entries''
        then Response 200 []
        else Unreachable ''no such host''),
      json_Marshal_login = (\<lambda>r. Email r @ '' '' @ Password r),
      json_Unmarshal_login = (\<lambda>body. if body = ''login'' then Some example_login else None),
      json_Unmarshal_connections = (\<lambda>body.
        if body = ''connections''
        then Some \<lparr>conn_Status = 0,
                   conn_Data = [\<lparr>data_PatientID = ''P1'', data_FirstName = ''Ada'',
                                 data_LastName = ''L'', data_Sensor_DeviceID = ''D'',
                                 data_Sensor_Serial = ''S''\<rparr>]\<rparr>
        else None),
      json_Unmarshal_glucose = (\<lambda>body.
        if body = ''graph''
        then Some \<lparr>glucose_Status = 0, gm_Value = 118, gm_ValueInMgPerDl = 118,
                   gm_TrendArrow = 4, gm_Timestamp = ''11/19/2024 3:14:29 PM''\<rparr>
        else None),
      json_Marshal_entries = (\<lambda>entries. Some (concat (map DateString entries))),
      sha256_hex = (\<lambda>s. ''sha256:'' @ s),
      time_ParseInLocation = (\<lambda>layout value l.
        if layout = ''1/2/2006 3:04:05 PM'' \<and> value = ''11/19/2024 3:14:29 PM''
        then Some \<lparr>unix_nanos = 1732025669000000000, loc = l\<rparr>
        else if layout = ''01/02/2006 15:04:05'' \<and> value = ''11/19/2024 15:14:29''
        then Some \<lparr>unix_nanos = 1732025669000000000, loc = l\<rparr>
        else None),
      time_Local = example_local\<rparr>"

text \<open>The same account following nobody: the decoded connection list is empty.\<close>

definition example_runtime_alone :: runtime where
  "example_runtime_alone =
     example_runtime\<lparr>json_Unmarshal_connections :=
       (\<lambda>body. if body = ''connections'' then Some \<lparr>conn_Status = 0, conn_Data = []\<rparr>
               else None)\<rparr>"

text \<open>The upstream answering the login with API status 2, and with a token of 5 bytes.\<close>

definition example_runtime_rejecting :: runtime where
  "example_runtime_rejecting =
     example_runtime\<lparr>json_Unmarshal_login :=
       (\<lambda>body. if body = ''login'' then Some (example_login\<lparr>login_Status := 2\<rparr>)
               else None)\<rparr>"

definition example_runtime_short_token :: runtime where
  "example_runtime_short_token =
     example_runtime\<lparr>json_Unmarshal_login :=
       (\<lambda>body. if body = ''login''
               then Some (example_login\<lparr>login_AuthTicket_Token := ''short''\<rparr>)
               else None)\<rparr>"

definition example_client :: Client where
  "example_client =
     \<lparr>baseURL = ''https://api-eu.libreview.io'', username = ''user@example.com'',
      password = ''secret'', authToken = [], accountID = []\<rparr>"

definition example_session :: Client where
  "example_session =
     example_client\<lparr>authToken := ''0123456789abcdefghijklmn'', accountID := ''ACC123''\<rparr>"

definition example_reading :: GlucoseReading where
  "example_reading =
     \<lparr>Value = 118, Unit = ''mg/dL'',
      Timestamp = \<lparr>unix_nanos = 1732025669000000000, loc = example_local\<rparr>,
      TrendArrow = ''Flat''\<rparr>"

definition example_nightscout :: NightscoutClient where
  "example_nightscout = \<lparr>ns_baseURL = ''nightscout:1337'', ns_apiToken = ''api-secret-value''\<rparr>"

text \<open>
  The upstream answering the login with HTTP status 201 (Created), body and token as
  before.
\<close>

definition example_runtime_created :: runtime where
  "example_runtime_created =
     example_runtime\<lparr>httpClient_Do := (\<lambda>history req. Response 201 ''login'')\<rparr>"

text \<open>
  A sink configured as \<open>nightscout:abc\<close>: \<^verbatim>\<open>http.NewRequest\<close> refuses the URL
  \<^verbatim>\<open>http://nightscout:abc/api/v1/entries\<close>, whose port is not a number.
\<close>

definition example_runtime_strict :: runtime where
  "example_runtime_strict =
     example_runtime\<lparr>http_NewRequest_ok :=
       (\<lambda>url. url \<noteq> ''http://nightscout:abc/api/v1/entries'')\<rparr>"

definition example_nightscout_abc :: NightscoutClient where
  "example_nightscout_abc = \<lparr>ns_baseURL = ''nightscout:abc'', ns_apiToken = ''api-secret-value''\<rparr>"

text \<open>
  A timestamp in the third layout with its own offset, "2024-11-19T15:14:29-05:00":
  \<^verbatim>\<open>time.ParseInLocation\<close> takes the zone from the string (five hours west of UTC), not
  from the location it is given, and returns the instant 20:14:29 UTC in that zone.
\<close>

definition example_zone_west :: location where
  "example_zone_west = (\<lambda>sec. - 18000)"

definition example_zoned_time :: go_time where
  "example_zoned_time = \<lparr>unix_nanos = 1732047269000000000, loc = example_zone_west\<rparr>"

definition example_runtime_zoned :: runtime where
  "example_runtime_zoned =
     example_runtime\<lparr>time_ParseInLocation := (\<lambda>layout value l.
        if layout = ''1/2/2006 3:04:05 PM'' \<and> value = ''11/19/2024 3:14:29 PM''
        then Some \<lparr>unix_nanos = 1732025669000000000, loc = l\<rparr>
        else if layout = ''01/02/2006 15:04:05'' \<and> value = ''11/19/2024 15:14:29''
        then Some \<lparr>unix_nanos = 1732025669000000000, loc = l\<rparr>
        else if layout = ''2006-01-02T15:04:05Z07:00'' \<and> value = ''2024-11-19T15:14:29-05:00''
        then Some example_zoned_time
        else None)\<rparr>"



text \<open>Sixteen minutes after the reading, and one minute after it.\<close>

definition example_late :: go_time where
  "example_late = \<lparr>unix_nanos = 1732026629000000000, loc = example_local\<rparr>"

definition example_soon :: go_time where
  "example_soon = \<lparr>unix_nanos = 1732025729000000000, loc = example_local\<rparr>"

definition empty_world :: world where
  "empty_world = \<lparr>sent = [], logged = []\<rparr>"

section \<open>Properties of the normalizer\<close>

lemma trend_code_range: "{1..7::int} = {1, 2, 3, 4, 5, 6, 7}"
  by auto

text \<open>
  Claim C2. The mapping from integer trend codes to labels is total. The codes 1 to 7 give
  the seven labels DoubleUp, SingleUp, FortyFiveUp, Flat, FortyFiveDown, SingleDown,
  DoubleDown in this order, the mapping is one-to-one on 1..7 and its image there is
  exactly the enumeration; every other integer (0 and the negative ones included) gives
  Unknown.
\<close>

theorem trendArrowToString_total:
  "trendArrowToString 1 = ''DoubleUp'' \<and>
   trendArrowToString 2 = ''SingleUp'' \<and>
   trendArrowToString 3 = ''FortyFiveUp'' \<and>
   trendArrowToString 4 = ''Flat'' \<and>
   trendArrowToString 5 = ''FortyFiveDown'' \<and>
   trendArrowToString 6 = ''SingleDown'' \<and>
   trendArrowToString 7 = ''DoubleDown'' \<and>
   inj_on trendArrowToString {1..7} \<and>
   trendArrowToString ` {1..7} = set trend_labels \<and>
   (\<forall>n. n < 1 \<or> 7 < n \<longrightarrow> trendArrowToString n = ''Unknown'')"
proof -
  have eqs: "trendArrowToString 1 = ''DoubleUp''" "trendArrowToString 2 = ''SingleUp''"
    "trendArrowToString 3 = ''FortyFiveUp''" "trendArrowToString 4 = ''Flat''"
    "trendArrowToString 5 = ''FortyFiveDown''" "trendArrowToString 6 = ''SingleDown''"
    "trendArrowToString 7 = ''DoubleDown''"
    by (simp_all add: trendArrowToString_def)
  have inj: "inj_on trendArrowToString {1..7}"
    unfolding trend_code_range by (simp add: eqs)
  have img: "trendArrowToString ` {1..7} = set trend_labels"
    unfolding trend_code_range by (simp add: eqs trend_labels_def)
  have other: "\<forall>n. n < 1 \<or> 7 < n \<longrightarrow> trendArrowToString n = ''Unknown''"
    by (auto simp: trendArrowToString_def)
  from eqs inj img other show ?thesis by blast
qed

theorem trendArrowToString_total_witness:
  "trendArrowToString 0 = ''Unknown'' \<and> trendArrowToString (- 3) = ''Unknown'' \<and>
   trendArrowToString 8 = ''Unknown''"
proof -
  have other: "\<And>n. n < 1 \<or> 7 < n \<Longrightarrow> trendArrowToString n = ''Unknown''"
    using trendArrowToString_total by blast
  have "(0::int) < 1" "(- 3::int) < 1" "(7::int) < 8" by simp_all
  then show ?thesis using other [of 0] other [of "- 3"] other [of 8] by blast
qed



section \<open>Properties of the LibreLink Up client\<close>

lemma req_url_Header_Set: "req_url (Header_Set k v req) = req_url req"
  by (simp add: Header_Set_def)

lemma req_url_setHeaders: "req_url (setHeaders rt c req) = req_url req"
  by (simp add: setHeaders_def Let_def req_url_Header_Set)

lemma req_url_login_request: "req_url (login_request rt c) = baseURL c @ ''/llu/auth/login''"
  by (simp add: login_request_def req_url_setHeaders)

lemma req_url_connections_request:
  "req_url (connections_request rt c) = baseURL c @ ''/llu/connections''"
  by (simp add: connections_request_def req_url_setHeaders req_url_Header_Set)

lemma req_url_glucose_request:
  "req_url (glucose_request rt c p) = baseURL c @ ''/llu/connections/'' @ p @ ''/graph''"
  by (simp add: glucose_request_def req_url_setHeaders req_url_Header_Set)

lemma req_url_entries_request:
  "req_url (entries_request c b) = effective_baseURL (ns_baseURL c) @ ''/api/v1/entries''"
  by (simp add: entries_request_def req_url_Header_Set)

text \<open>
  Claim C4. When the client holds a session, the connections request can be built, the
  upstream answers it with status 200 and the decoded list is empty, \<^verbatim>\<open>GetConnections\<close>
  returns exactly one connection, whose patient id is the account id of the session and
  whose first name is Self. And whenever \<^verbatim>\<open>GetConnections\<close> succeeds, the list is not
  empty.
\<close>

theorem GetConnections_empty_gives_self:
  "(authToken c \<noteq> [] \<and> http_NewRequest_ok rt (baseURL c @ ''/llu/connections'') \<and>
    httpClient_Do rt (sent w) (connections_request rt c) = Response 200 body \<and>
    json_Unmarshal_connections rt body = Some connResp \<and> conn_Data connResp = []
    \<longrightarrow> GetConnections rt c w =
          (Inr [\<lparr>PatientID = accountID c, FirstName = ''Self'', LastName = [],
                 SensorState = 0\<rparr>],
           w\<lparr>sent := sent w @ [connections_request rt c]\<rparr>)) \<and>
   (\<forall>cs w'. GetConnections rt c w = (Inr cs, w') \<longrightarrow> cs \<noteq> [])"
proof -
  have empty: "GetConnections rt c w =
          (Inr [\<lparr>PatientID = accountID c, FirstName = ''Self'', LastName = [],
                 SensorState = 0\<rparr>],
           w\<lparr>sent := sent w @ [connections_request rt c]\<rparr>)"
    if "authToken c \<noteq> []" "http_NewRequest_ok rt (baseURL c @ ''/llu/connections'')"
       "httpClient_Do rt (sent w) (connections_request rt c) = Response 200 body"
       "json_Unmarshal_connections rt body = Some connResp" "conn_Data connResp = []"
    using that by (simp add: GetConnections_def Do_def)
  have nonempty: "cs \<noteq> []" if "GetConnections rt c w = (Inr cs, w')" for cs w'
    using that
    by (auto simp: GetConnections_def Do_def
             split: if_splits http_reply.splits option.splits)
  from empty nonempty show ?thesis by blast
qed

theorem GetConnections_empty_gives_self_witness:
  "GetConnections example_runtime_alone example_session empty_world =
   (Inr [\<lparr>PatientID = ''ACC123'', FirstName = ''Self'', LastName = [], SensorState = 0\<rparr>],
    empty_world\<lparr>sent := [connections_request example_runtime_alone example_session]\<rparr>)"
  using GetConnections_empty_gives_self
    [of example_session example_runtime_alone empty_world "''connections''"
        "\<lparr>conn_Status = 0, conn_Data = []\<rparr>"]
  by (simp add: example_runtime_alone_def example_runtime_def example_session_def
        example_client_def empty_world_def connections_request_def setHeaders_def
        Header_Set_def)

text \<open>
  \<^verbatim>\<open>Login\<close> read as a function of the reply of the transport, once the request is built.
\<close>

lemma Login_cases:
  assumes ok: "http_NewRequest_ok rt (baseURL c @ ''/llu/auth/login'')"
  shows "Login rt c w =
     (case httpClient_Do rt (sent w) (login_request rt c) of
        Unreachable m \<Rightarrow>
          (Returns (Some (AuthError (TransportFailed m))), c,
           w\<lparr>sent := sent w @ [login_request rt c]\<rparr>)
      | Response status body \<Rightarrow>
          if status \<noteq> 200
          then (Returns (Some (AuthError (HTTPStatus status body))), c,
                w\<lparr>sent := sent w @ [login_request rt c]\<rparr>)
          else (case json_Unmarshal_login rt body of
                  None \<Rightarrow> (Returns (Some (AuthError DecodeFailed)), c,
                           w\<lparr>sent := sent w @ [login_request rt c]\<rparr>)
                | Some r \<Rightarrow>
                    if login_Status r \<noteq> 0
                    then (Returns (Some (AuthError (APIStatus (login_Status r)))), c,
                          w\<lparr>sent := sent w @ [login_request rt c]\<rparr>)
                    else if length (login_AuthTicket_Token r) < 20
                    then (Panics, c\<lparr>authToken := login_AuthTicket_Token r,
                                     accountID := login_User_ID r\<rparr>,
                          w\<lparr>sent := sent w @ [login_request rt c]\<rparr>)
                    else (Returns None, c\<lparr>authToken := login_AuthTicket_Token r,
                                           accountID := login_User_ID r\<rparr>,
                          w\<lparr>sent := sent w @ [login_request rt c]\<rparr>)))"
  using ok
  by (simp add: Login_def Do_def Let_def split: http_reply.splits option.splits)

text \<open>
  Claim C7, as the code has it. For a client whose login URL \<^verbatim>\<open>http.NewRequest\<close> accepts
  (the base URL is always one of the regional endpoints), \<^verbatim>\<open>Login\<close> returns an error
  exactly when the transport fails (endpoint unreachable), the HTTP status is anything other
  than 200 (a 201 or a 204, success statuses of HTTP, included), the body does not decode,
  or the decoded status field is not zero; every error it returns is an \<open>AuthError\<close> and
  leaves the client unchanged. When it returns \<^verbatim>\<open>nil\<close>, the reply was a 200 whose decoded
  body has status zero, and the client holds the token and the account id of that body,
  its other fields unchanged.
\<close>

theorem Login_fails_exactly_when:
  assumes ok: "http_NewRequest_ok rt (baseURL c @ ''/llu/auth/login'')"
      and run: "Login rt c w = (res, c', w')"
      and reply: "reply = httpClient_Do rt (sent w) (login_request rt c)"
  shows "((\<exists>k. res = Returns (Some (AuthError k))) \<longleftrightarrow>
            (\<exists>m. reply = Unreachable m) \<or>
            (\<exists>status body. reply = Response status body \<and> status \<noteq> 200) \<or>
            (\<exists>body. reply = Response 200 body \<and> json_Unmarshal_login rt body = None) \<or>
            (\<exists>body r. reply = Response 200 body \<and> json_Unmarshal_login rt body = Some r \<and>
                      login_Status r \<noteq> 0)) \<and>
         (\<forall>e. res = Returns (Some e) \<longrightarrow> (\<exists>k. e = AuthError k) \<and> c' = c) \<and>
         (res = Returns None \<longrightarrow>
            (\<exists>body r. reply = Response 200 body \<and> json_Unmarshal_login rt body = Some r \<and>
                      login_Status r = 0 \<and>
                      authToken c' = login_AuthTicket_Token r \<and>
                      accountID c' = login_User_ID r \<and>
                      baseURL c' = baseURL c \<and> username c' = username c \<and>
                      password c' = password c))"
  using run unfolding Login_cases [OF ok] reply
  by (auto split: http_reply.splits option.splits if_splits)

text \<open>
  Claim C10. When the login is answered with HTTP 200, the body decodes, its status field
  is zero and its token has fewer than 20 bytes (the empty token included), \<^verbatim>\<open>Login\<close>
  panics at \<^verbatim>\<open>c.authToken[:20]\<close> instead of returning; this is the only way it panics; and
  whenever \<^verbatim>\<open>Login\<close> returns \<^verbatim>\<open>nil\<close>, the recorded token has at least 20 bytes.
\<close>

theorem Login_short_token_panics:
  "(http_NewRequest_ok rt (baseURL c @ ''/llu/auth/login'') \<and>
    httpClient_Do rt (sent w) (login_request rt c) = Response 200 body \<and>
    json_Unmarshal_login rt body = Some r \<and> login_Status r = 0 \<and>
    length (login_AuthTicket_Token r) < 20
    \<longrightarrow> fst (Login rt c w) = Panics) \<and>
   (fst (Login rt c w) = Panics
    \<longrightarrow> (\<exists>body r. httpClient_Do rt (sent w) (login_request rt c) = Response 200 body \<and>
                  json_Unmarshal_login rt body = Some r \<and> login_Status r = 0 \<and>
                  length (login_AuthTicket_Token r) < 20)) \<and>
   (\<forall>c' w'. Login rt c w = (Returns None, c', w') \<longrightarrow> 20 \<le> length (authToken c'))"
proof (cases "http_NewRequest_ok rt (baseURL c @ ''/llu/auth/login'')")
  case True
  show ?thesis
    unfolding Login_cases [OF True]
    by (auto split: http_reply.splits option.splits if_splits)
next
  case False
  then show ?thesis by (simp add: Login_def)
qed


text \<open>The definitions of the concrete run and of the requests, for evaluation.\<close>

lemmas example_defs =
  example_runtime_def example_runtime_alone_def example_runtime_rejecting_def
  example_runtime_short_token_def example_login_def example_client_def example_session_def
  example_reading_def example_nightscout_def example_local_def empty_world_def

lemmas request_defs =
  login_request_def connections_request_def glucose_request_def entries_request_def
  setHeaders_def Header_Set_def

theorem Login_fails_exactly_when_witness:
  "http_NewRequest_ok example_runtime (baseURL example_client @ ''/llu/auth/login'') \<and>
   Login example_runtime example_client empty_world =
     (Returns None, example_session,
      empty_world\<lparr>sent := [login_request example_runtime example_client]\<rparr>) \<and>
   authToken example_session = login_AuthTicket_Token example_login \<and>
   accountID example_session = login_User_ID example_login \<and>
   http_NewRequest_ok example_runtime_rejecting (baseURL example_client @ ''/llu/auth/login'') \<and>
   Login example_runtime_rejecting example_client empty_world =
     (Returns (Some (AuthError (APIStatus 2))), example_client,
      empty_world\<lparr>sent := [login_request example_runtime_rejecting example_client]\<rparr>) \<and>
   httpClient_Do example_runtime_rejecting (sent empty_world)
     (login_request example_runtime_rejecting example_client) = Response 200 ''login''"
proof -
  have ok: "http_NewRequest_ok example_runtime (baseURL example_client @ ''/llu/auth/login'')"
    and ok': "http_NewRequest_ok example_runtime_rejecting
                (baseURL example_client @ ''/llu/auth/login'')"
    by (simp_all add: example_defs)
  have run: "Login example_runtime example_client empty_world =
     (Returns None, example_session,
      empty_world\<lparr>sent := [login_request example_runtime example_client]\<rparr>)"
    by (simp add: Login_def Do_def example_defs request_defs)
  have run': "Login example_runtime_rejecting example_client empty_world =
     (Returns (Some (AuthError (APIStatus 2))), example_client,
      empty_world\<lparr>sent := [login_request example_runtime_rejecting example_client]\<rparr>)"
    by (simp add: Login_def Do_def example_defs request_defs)
  have reply: "httpClient_Do example_runtime_rejecting (sent empty_world)
     (login_request example_runtime_rejecting example_client) = Response 200 ''login''"
    by (simp add: example_defs request_defs)
  from Login_fails_exactly_when [OF ok run refl] Login_fails_exactly_when [OF ok' run' refl]
  have "authToken example_session = login_AuthTicket_Token example_login \<and>
        accountID example_session = login_User_ID example_login"
    by (simp add: example_defs request_defs)
  with ok ok' run run' reply show ?thesis by blast
qed

text \<open>
  Claim C7 as stated fails for a reply with status 201: the endpoint is reachable, the
  status is a success status, the body decodes, its status field is zero and its token
  has 24 bytes, and \<^verbatim>\<open>Login\<close> still returns an error, the client unchanged.
\<close>

theorem Login_status_201_counterexample:
  "http_NewRequest_ok example_runtime_created (baseURL example_client @ ''/llu/auth/login'') \<and>
   httpClient_Do example_runtime_created (sent empty_world)
     (login_request example_runtime_created example_client) = Response 201 ''login'' \<and>
   json_Unmarshal_login example_runtime_created ''login'' = Some example_login \<and>
   login_Status example_login = 0 \<and>
   length (login_AuthTicket_Token example_login) = 24 \<and>
   Login example_runtime_created example_client empty_world =
     (Returns (Some (AuthError (HTTPStatus 201 ''login''))), example_client,
      \<lparr>sent = [login_request example_runtime_created example_client], logged = []\<rparr>)"
  by (simp add: Login_def Do_def example_runtime_created_def example_defs)

theorem Login_short_token_panics_witness:
  "fst (Login example_runtime_short_token example_client empty_world) = Panics \<and>
   Login example_runtime example_client empty_world =
     (Returns None, example_session,
      empty_world\<lparr>sent := [login_request example_runtime example_client]\<rparr>) \<and>
   20 \<le> length (authToken example_session)"
proof -
  have run: "Login example_runtime example_client empty_world =
     (Returns None, example_session,
      empty_world\<lparr>sent := [login_request example_runtime example_client]\<rparr>)"
    by (simp add: Login_def Do_def example_defs request_defs)
  have short: "http_NewRequest_ok example_runtime_short_token
       (baseURL example_client @ ''/llu/auth/login'') \<and>
     httpClient_Do example_runtime_short_token (sent empty_world)
       (login_request example_runtime_short_token example_client) = Response 200 ''login'' \<and>
     json_Unmarshal_login example_runtime_short_token ''login'' =
       Some (example_login\<lparr>login_AuthTicket_Token := ''short''\<rparr>) \<and>
     login_Status (example_login\<lparr>login_AuthTicket_Token := ''short''\<rparr>) = 0 \<and>
     length (login_AuthTicket_Token (example_login\<lparr>login_AuthTicket_Token := ''short''\<rparr>)) < 20"
    by (simp add: example_defs request_defs)
  from Login_short_token_panics
         [of example_runtime_short_token example_client empty_world "''login''"
             "example_login\<lparr>login_AuthTicket_Token := ''short''\<rparr>"] short
  have p: "fst (Login example_runtime_short_token example_client empty_world) = Panics"
    by blast
  from Login_short_token_panics [of example_runtime example_client empty_world] run
  have "20 \<le> length (authToken example_session)" by blast
  with p run show ?thesis by blast
qed

section \<open>Properties of the Nightscout client\<close>

text \<open>
  When the entry serializes and the request can be built, \<^verbatim>\<open>PostGlucoseReading\<close> sends
  exactly one request, whatever the answer is.
\<close>

lemma PostGlucoseReading_sends:
  assumes "json_Marshal_entries rt [make_entry r] = Some b"
      and "http_NewRequest_ok rt (effective_baseURL (ns_baseURL c) @ ''/api/v1/entries'')"
  shows "sent (snd (PostGlucoseReading rt c (Some r) w)) = sent w @ [entries_request c b]"
  using assms
  by (simp add: PostGlucoseReading_def Do_def Let_def log_Println_def
           split: http_reply.splits)

text \<open>
  Claim C1, as the code has it. With no session (an empty token, which is what
  \<^verbatim>\<open>NewClient\<close> creates and what a \<^verbatim>\<open>Login\<close> that returns an error leaves in place),
  \<^verbatim>\<open>GetLatestReading\<close> fails with the not-authenticated error and sends nothing.
  \<^verbatim>\<open>PostGlucoseReading\<close> belongs to the Nightscout client, which has no session and takes
  no LibreLink client: it rejects a nil reading without sending anything, and for a
  reading whose entry serializes and whose URL gives a request it sends the POST.
\<close>

theorem GetLatestReading_without_session:
  "(authToken c = [] \<longrightarrow> GetLatestReading rt c patientID w = (Inl NotAuthenticatedError, w)) \<and>
   (\<forall>c0. NewClient region user pass = Inr c0 \<longrightarrow> authToken c0 = []) \<and>
   (\<forall>e c' w'. Login rt c w = (Returns (Some e), c', w') \<longrightarrow> c' = c) \<and>
   PostGlucoseReading rt ns None w = (Some InvalidInputError, w) \<and>
   (json_Marshal_entries rt [make_entry r] = Some b \<and>
    http_NewRequest_ok rt (effective_baseURL (ns_baseURL ns) @ ''/api/v1/entries'')
    \<longrightarrow> sent (snd (PostGlucoseReading rt ns (Some r) w)) = sent w @ [entries_request ns b])"
proof -
  have a: "authToken c = [] \<longrightarrow> GetLatestReading rt c patientID w = (Inl NotAuthenticatedError, w)"
    by (simp add: GetLatestReading_def)
  have b: "\<forall>c0. NewClient region user pass = Inr c0 \<longrightarrow> authToken c0 = []"
    by (auto simp: NewClient_def split: option.splits)
  have c: "\<forall>e c' w'. Login rt c w = (Returns (Some e), c', w') \<longrightarrow> c' = c"
    by (auto simp: Login_def Do_def Let_def split: if_splits http_reply.splits option.splits)
  have d: "PostGlucoseReading rt ns None w = (Some InvalidInputError, w)"
    by (simp add: PostGlucoseReading_def)
  from a b c d PostGlucoseReading_sends show ?thesis by blast
qed

theorem GetLatestReading_without_session_witness:
  "GetLatestReading example_runtime example_client ''P1'' empty_world =
     (Inl NotAuthenticatedError, empty_world) \<and>
   NewClient ''EU'' ''user@example.com'' ''secret'' = Inr example_client \<and>
   authToken example_client = [] \<and>
   sent (snd (PostGlucoseReading example_runtime example_nightscout (Some example_reading)
                empty_world)) =
     [entries_request example_nightscout ''2024-11-19T15:14:29+01:00'']"
proof -
  have new: "NewClient ''EU'' ''user@example.com'' ''secret'' = Inr example_client"
    by (simp add: NewClient_def endpoints_def example_defs)
  have tok: "authToken example_client = []"
    by (simp add: example_defs)
  have m: "json_Marshal_entries example_runtime [make_entry example_reading] =
             Some ''2024-11-19T15:14:29+01:00''"
    by code_simp
  have ok: "http_NewRequest_ok example_runtime
              (effective_baseURL (ns_baseURL example_nightscout) @ ''/api/v1/entries'')"
    by (simp add: example_defs)
  from GetLatestReading_without_session
         [of example_client example_runtime "''P1''" empty_world "''EU''"
             "''user@example.com''" "''secret''" example_nightscout example_reading
             "''2024-11-19T15:14:29+01:00''"] new tok m ok
  show ?thesis by (simp add: empty_world_def)
qed

text \<open>
  Claim C1 as stated fails for \<^verbatim>\<open>PostGlucoseReading\<close>: with a fresh client (no login, nothing
  sent so far) it posts the entry and returns \<^verbatim>\<open>nil\<close>.
\<close>

theorem PostGlucoseReading_without_Login_counterexample:
  "NewClient ''EU'' ''user@example.com'' ''secret'' = Inr example_client \<and>
   authToken example_client = [] \<and>
   PostGlucoseReading example_runtime example_nightscout (Some example_reading) empty_world =
     (None,
      \<lparr>sent = [entries_request example_nightscout ''2024-11-19T15:14:29+01:00''],
       logged = [LogPosting ''http://nightscout:1337/api/v1/entries'']\<rparr>)"
  by code_simp

lemma req_method_entries_request: "req_method (entries_request c b) = ''POST''"
  by (simp add: entries_request_def Header_Set_def)


lemma PostGlucoseReading_sends_at_most_one:
  "sent (snd (PostGlucoseReading rt c reading w)) = sent w \<or>
   (\<exists>r b. reading = Some r \<and> json_Marshal_entries rt [make_entry r] = Some b \<and>
          sent (snd (PostGlucoseReading rt c reading w)) = sent w @ [entries_request c b])"
  by (cases reading)
     (auto simp: PostGlucoseReading_def Do_def Let_def log_Println_def
           split: option.splits http_reply.splits)

text \<open>
  Claim C5, as the code has it. The URL \<^verbatim>\<open>PostGlucoseReading\<close> builds from the configured
  base is \<^verbatim>\<open>http://\<close> + base + \<^verbatim>\<open>/api/v1/entries\<close> when the base starts with neither
  \<^verbatim>\<open>http://\<close> nor \<^verbatim>\<open>https://\<close> and contains a colon, \<^verbatim>\<open>https://\<close> + base +
  \<^verbatim>\<open>/api/v1/entries\<close> when it starts with neither and contains no colon, and base +
  \<^verbatim>\<open>/api/v1/entries\<close> when it starts with one of the two. For a reading whose entry
  serializes, the POST is sent to that URL if \<^verbatim>\<open>http.NewRequest\<close> accepts it; if it does
  not, nothing is sent and the call fails with the request-creation error; an entry that
  does not serialize fails before any URL is built. In every case at most one request is
  sent, and it goes to that URL.
\<close>

theorem PostGlucoseReading_url_scheme:
  "(json_Marshal_entries rt [make_entry r] = Some b \<and>
    \<not> HasPrefix (ns_baseURL c) ''http://'' \<and> \<not> HasPrefix (ns_baseURL c) ''https://'' \<and>
    CHR '':'' \<in> set (ns_baseURL c) \<and>
    http_NewRequest_ok rt (''http://'' @ ns_baseURL c @ ''/api/v1/entries'')
    \<longrightarrow> (\<exists>req. sent (snd (PostGlucoseReading rt c (Some r) w)) = sent w @ [req] \<and>
               req_method req = ''POST'' \<and>
               req_url req = ''http://'' @ ns_baseURL c @ ''/api/v1/entries'')) \<and>
   (json_Marshal_entries rt [make_entry r] = Some b \<and>
    \<not> HasPrefix (ns_baseURL c) ''http://'' \<and> \<not> HasPrefix (ns_baseURL c) ''https://'' \<and>
    CHR '':'' \<notin> set (ns_baseURL c) \<and>
    http_NewRequest_ok rt (''https://'' @ ns_baseURL c @ ''/api/v1/entries'')
    \<longrightarrow> (\<exists>req. sent (snd (PostGlucoseReading rt c (Some r) w)) = sent w @ [req] \<and>
               req_method req = ''POST'' \<and>
               req_url req = ''https://'' @ ns_baseURL c @ ''/api/v1/entries'')) \<and>
   (json_Marshal_entries rt [make_entry r] = Some b \<and>
    (HasPrefix (ns_baseURL c) ''http://'' \<or> HasPrefix (ns_baseURL c) ''https://'') \<and>
    http_NewRequest_ok rt (ns_baseURL c @ ''/api/v1/entries'')
    \<longrightarrow> (\<exists>req. sent (snd (PostGlucoseReading rt c (Some r) w)) = sent w @ [req] \<and>
               req_method req = ''POST'' \<and>
               req_url req = ns_baseURL c @ ''/api/v1/entries'')) \<and>
   (json_Marshal_entries rt [make_entry r] = Some b \<and>
    \<not> http_NewRequest_ok rt
        ((if HasPrefix (ns_baseURL c) ''http://'' \<or> HasPrefix (ns_baseURL c) ''https://''
          then ns_baseURL c
          else if CHR '':'' \<in> set (ns_baseURL c) then ''http://'' @ ns_baseURL c
          else ''https://'' @ ns_baseURL c) @ ''/api/v1/entries'')
    \<longrightarrow> fst (PostGlucoseReading rt c (Some r) w) = Some (DeliveryError RequestNotCreated) \<and>
        sent (snd (PostGlucoseReading rt c (Some r) w)) = sent w) \<and>
   (json_Marshal_entries rt [make_entry r] = None
    \<longrightarrow> PostGlucoseReading rt c (Some r) w = (Some (DeliveryError MarshalFailed), w)) \<and>
   (sent (snd (PostGlucoseReading rt c reading w)) = sent w \<or>
    (\<exists>req. sent (snd (PostGlucoseReading rt c reading w)) = sent w @ [req] \<and>
           req_method req = ''POST'' \<and>
           req_url req =
             (if HasPrefix (ns_baseURL c) ''http://'' \<or> HasPrefix (ns_baseURL c) ''https://''
              then ns_baseURL c
              else if CHR '':'' \<in> set (ns_baseURL c) then ''http://'' @ ns_baseURL c
              else ''https://'' @ ns_baseURL c) @ ''/api/v1/entries''))"
proof -
  have eff: "effective_baseURL (ns_baseURL c) =
      (if HasPrefix (ns_baseURL c) ''http://'' \<or> HasPrefix (ns_baseURL c) ''https://''
       then ns_baseURL c
       else if CHR '':'' \<in> set (ns_baseURL c) then ''http://'' @ ns_baseURL c
       else ''https://'' @ ns_baseURL c)"
    by (simp add: effective_baseURL_def)
  have send: "\<exists>req. sent (snd (PostGlucoseReading rt c (Some r) w)) = sent w @ [req] \<and>
               req_method req = ''POST'' \<and> req_url req = u @ ''/api/v1/entries''"
    if "json_Marshal_entries rt [make_entry r] = Some b"
       "effective_baseURL (ns_baseURL c) = u" "http_NewRequest_ok rt (u @ ''/api/v1/entries'')"
    for u
    using that PostGlucoseReading_sends [of rt r b c w]
    by (auto simp: req_method_entries_request req_url_entries_request)
  have http: "effective_baseURL (ns_baseURL c) = ''http://'' @ ns_baseURL c"
    if "\<not> HasPrefix (ns_baseURL c) ''http://''" "\<not> HasPrefix (ns_baseURL c) ''https://''"
       "CHR '':'' \<in> set (ns_baseURL c)"
    using that by (simp add: effective_baseURL_def)
  have https: "effective_baseURL (ns_baseURL c) = ''https://'' @ ns_baseURL c"
    if "\<not> HasPrefix (ns_baseURL c) ''http://''" "\<not> HasPrefix (ns_baseURL c) ''https://''"
       "CHR '':'' \<notin> set (ns_baseURL c)"
    using that by (simp add: effective_baseURL_def)
  have same: "effective_baseURL (ns_baseURL c) = ns_baseURL c"
    if "HasPrefix (ns_baseURL c) ''http://'' \<or> HasPrefix (ns_baseURL c) ''https://''"
    using that by (auto simp: effective_baseURL_def)
  have three: "(json_Marshal_entries rt [make_entry r] = Some b \<and>
    \<not> HasPrefix (ns_baseURL c) ''http://'' \<and> \<not> HasPrefix (ns_baseURL c) ''https://'' \<and>
    CHR '':'' \<in> set (ns_baseURL c) \<and>
    http_NewRequest_ok rt (''http://'' @ ns_baseURL c @ ''/api/v1/entries'')
    \<longrightarrow> (\<exists>req. sent (snd (PostGlucoseReading rt c (Some r) w)) = sent w @ [req] \<and>
               req_method req = ''POST'' \<and>
               req_url req = ''http://'' @ ns_baseURL c @ ''/api/v1/entries'')) \<and>
   (json_Marshal_entries rt [make_entry r] = Some b \<and>
    \<not> HasPrefix (ns_baseURL c) ''http://'' \<and> \<not> HasPrefix (ns_baseURL c) ''https://'' \<and>
    CHR '':'' \<notin> set (ns_baseURL c) \<and>
    http_NewRequest_ok rt (''https://'' @ ns_baseURL c @ ''/api/v1/entries'')
    \<longrightarrow> (\<exists>req. sent (snd (PostGlucoseReading rt c (Some r) w)) = sent w @ [req] \<and>
               req_method req = ''POST'' \<and>
               req_url req = ''https://'' @ ns_baseURL c @ ''/api/v1/entries'')) \<and>
   (json_Marshal_entries rt [make_entry r] = Some b \<and>
    (HasPrefix (ns_baseURL c) ''http://'' \<or> HasPrefix (ns_baseURL c) ''https://'') \<and>
    http_NewRequest_ok rt (ns_baseURL c @ ''/api/v1/entries'')
    \<longrightarrow> (\<exists>req. sent (snd (PostGlucoseReading rt c (Some r) w)) = sent w @ [req] \<and>
               req_method req = ''POST'' \<and>
               req_url req = ns_baseURL c @ ''/api/v1/entries''))"
    using send [OF _ http] send [OF _ https] send [OF _ same] by simp
  have refused: "fst (PostGlucoseReading rt c (Some r) w) = Some (DeliveryError RequestNotCreated) \<and>
        sent (snd (PostGlucoseReading rt c (Some r) w)) = sent w"
    if "json_Marshal_entries rt [make_entry r] = Some b"
       "\<not> http_NewRequest_ok rt (effective_baseURL (ns_baseURL c) @ ''/api/v1/entries'')"
    using that by (simp add: PostGlucoseReading_def Let_def log_Println_def)
  have unmarshalled: "PostGlucoseReading rt c (Some r) w = (Some (DeliveryError MarshalFailed), w)"
    if "json_Marshal_entries rt [make_entry r] = None"
    using that by (simp add: PostGlucoseReading_def)
  have most: "sent (snd (PostGlucoseReading rt c reading w)) = sent w \<or>
    (\<exists>req. sent (snd (PostGlucoseReading rt c reading w)) = sent w @ [req] \<and>
           req_method req = ''POST'' \<and>
           req_url req = effective_baseURL (ns_baseURL c) @ ''/api/v1/entries'')"
    using PostGlucoseReading_sends_at_most_one [of rt c reading w]
    by (auto simp: req_method_entries_request req_url_entries_request)
  from three refused unmarshalled most show ?thesis
    unfolding eff by blast
qed

text \<open>The entry of the concrete reading, evaluated.\<close>

lemma example_entry:
  "make_entry example_reading =
     \<lparr>Type = ''sgv'', SGV = 118, Direction = ''Flat'',
      Device = ''nightscout-librelink-up-go'', Date = 1732025669000,
      DateString = ''2024-11-19T15:14:29+01:00''\<rparr>"
  by code_simp

theorem PostGlucoseReading_url_scheme_witness:
  "(\<exists>req. sent (snd (PostGlucoseReading example_runtime
            \<lparr>ns_baseURL = ''nightscout:1337'', ns_apiToken = ''s''\<rparr>
            (Some example_reading) empty_world)) = sent empty_world @ [req] \<and>
          req_method req = ''POST'' \<and>
          req_url req = ''http://nightscout:1337/api/v1/entries'') \<and>
   (\<exists>req. sent (snd (PostGlucoseReading example_runtime
            \<lparr>ns_baseURL = ''ns.example.com'', ns_apiToken = ''s''\<rparr>
            (Some example_reading) empty_world)) = sent empty_world @ [req] \<and>
          req_method req = ''POST'' \<and>
          req_url req = ''https://ns.example.com/api/v1/entries'') \<and>
   (\<exists>req. sent (snd (PostGlucoseReading example_runtime
            \<lparr>ns_baseURL = ''https://ns.example.com'', ns_apiToken = ''s''\<rparr>
            (Some example_reading) empty_world)) = sent empty_world @ [req] \<and>
          req_method req = ''POST'' \<and>
          req_url req = ''https://ns.example.com/api/v1/entries'') \<and>
   fst (PostGlucoseReading example_runtime_strict example_nightscout_abc
          (Some example_reading) empty_world) = Some (DeliveryError RequestNotCreated) \<and>
   sent (snd (PostGlucoseReading example_runtime_strict example_nightscout_abc
                (Some example_reading) empty_world)) = sent empty_world"
proof -
  have m: "json_Marshal_entries example_runtime [make_entry example_reading] =
             Some ''2024-11-19T15:14:29+01:00''"
    and m': "json_Marshal_entries example_runtime_strict [make_entry example_reading] =
             Some ''2024-11-19T15:14:29+01:00''"
    by (simp_all add: example_entry example_runtime_strict_def example_runtime_def)
  have ok: "\<And>u. http_NewRequest_ok example_runtime u"
    by (simp add: example_runtime_def)
  have three: "(\<exists>req. sent (snd (PostGlucoseReading example_runtime
            \<lparr>ns_baseURL = ''nightscout:1337'', ns_apiToken = ''s''\<rparr>
            (Some example_reading) empty_world)) = sent empty_world @ [req] \<and>
          req_method req = ''POST'' \<and>
          req_url req = ''http://nightscout:1337/api/v1/entries'') \<and>
   (\<exists>req. sent (snd (PostGlucoseReading example_runtime
            \<lparr>ns_baseURL = ''ns.example.com'', ns_apiToken = ''s''\<rparr>
            (Some example_reading) empty_world)) = sent empty_world @ [req] \<and>
          req_method req = ''POST'' \<and>
          req_url req = ''https://ns.example.com/api/v1/entries'') \<and>
   (\<exists>req. sent (snd (PostGlucoseReading example_runtime
            \<lparr>ns_baseURL = ''https://ns.example.com'', ns_apiToken = ''s''\<rparr>
            (Some example_reading) empty_world)) = sent empty_world @ [req] \<and>
          req_method req = ''POST'' \<and>
          req_url req = ''https://ns.example.com/api/v1/entries'')"
    using PostGlucoseReading_url_scheme
            [of example_runtime example_reading "''2024-11-19T15:14:29+01:00''"
                "\<lparr>ns_baseURL = ''nightscout:1337'', ns_apiToken = ''s''\<rparr>" empty_world]
          PostGlucoseReading_url_scheme
            [of example_runtime example_reading "''2024-11-19T15:14:29+01:00''"
                "\<lparr>ns_baseURL = ''ns.example.com'', ns_apiToken = ''s''\<rparr>" empty_world]
          PostGlucoseReading_url_scheme
            [of example_runtime example_reading "''2024-11-19T15:14:29+01:00''"
                "\<lparr>ns_baseURL = ''https://ns.example.com'', ns_apiToken = ''s''\<rparr>" empty_world]
    by (simp add: m ok HasPrefix_def)
  have refuse: "\<not> http_NewRequest_ok example_runtime_strict
        ((if HasPrefix (ns_baseURL example_nightscout_abc) ''http://'' \<or>
             HasPrefix (ns_baseURL example_nightscout_abc) ''https://''
          then ns_baseURL example_nightscout_abc
          else if CHR '':'' \<in> set (ns_baseURL example_nightscout_abc)
          then ''http://'' @ ns_baseURL example_nightscout_abc
          else ''https://'' @ ns_baseURL example_nightscout_abc) @ ''/api/v1/entries'')"
    by (simp add: example_runtime_strict_def example_nightscout_abc_def HasPrefix_def)
  from PostGlucoseReading_url_scheme
         [of example_runtime_strict example_reading "''2024-11-19T15:14:29+01:00''"
             example_nightscout_abc empty_world]
       m' refuse
  have "fst (PostGlucoseReading example_runtime_strict example_nightscout_abc
          (Some example_reading) empty_world) = Some (DeliveryError RequestNotCreated) \<and>
   sent (snd (PostGlucoseReading example_runtime_strict example_nightscout_abc
                (Some example_reading) empty_world)) = sent empty_world"
    by blast
  with three show ?thesis by blast
qed

text \<open>
  Claim C5 as stated fails for the base \<open>nightscout:abc\<close>: it starts with no scheme and
  contains a colon, the entry serializes, and yet nothing is posted, because the URL
  \<^verbatim>\<open>http://nightscout:abc/api/v1/entries\<close> gives no request.
\<close>

theorem PostGlucoseReading_refused_url_counterexample:
  "\<not> HasPrefix (ns_baseURL example_nightscout_abc) ''http://'' \<and>
   \<not> HasPrefix (ns_baseURL example_nightscout_abc) ''https://'' \<and>
   CHR '':'' \<in> set (ns_baseURL example_nightscout_abc) \<and>
   PostGlucoseReading example_runtime_strict example_nightscout_abc (Some example_reading)
     empty_world =
     (Some (DeliveryError RequestNotCreated),
      \<lparr>sent = [], logged = [LogPosting ''http://nightscout:abc/api/v1/entries'']\<rparr>)"
  by code_simp

section \<open>Properties of timestamp parsing\<close>

text \<open>The loop over the layouts: the result is that of the first layout the parser accepts.\<close>

lemma try_formats_none:
  "(\<forall>f \<in> set fs. time_ParseInLocation rt f ts (time_Local rt) = None) \<Longrightarrow>
   try_formats rt ts fs = Inl (TimestampError ts)"
  by (induction fs) simp_all

lemma try_formats_first:
  "i < length fs \<Longrightarrow> time_ParseInLocation rt (fs ! i) ts (time_Local rt) = Some t \<Longrightarrow>
   (\<forall>j < i. time_ParseInLocation rt (fs ! j) ts (time_Local rt) = None) \<Longrightarrow>
   try_formats rt ts fs = Inr t"
proof (induction fs arbitrary: i)
  case Nil
  then show ?case by simp
next
  case (Cons f fs)
  show ?case
  proof (cases i)
    case 0
    with Cons.prems show ?thesis by simp
  next
    case (Suc k)
    from Cons.prems(3) Suc have head: "time_ParseInLocation rt f ts (time_Local rt) = None"
      by auto
    from Cons.prems Suc have "k < length fs"
      and "time_ParseInLocation rt (fs ! k) ts (time_Local rt) = Some t"
      and "\<forall>j < k. time_ParseInLocation rt (fs ! j) ts (time_Local rt) = None"
      by auto
    then have "try_formats rt ts fs = Inr t" by (rule Cons.IH)
    with head show ?thesis by simp
  qed
qed

lemma try_formats_Inr:
  "try_formats rt ts fs = Inr t \<Longrightarrow>
   \<exists>i < length fs. time_ParseInLocation rt (fs ! i) ts (time_Local rt) = Some t \<and>
     (\<forall>j < i. time_ParseInLocation rt (fs ! j) ts (time_Local rt) = None)"
proof (induction fs)
  case Nil
  then show ?case by simp
next
  case (Cons f fs)
  show ?case
  proof (cases "time_ParseInLocation rt f ts (time_Local rt)")
    case (Some u)
    with Cons.prems have "u = t" by simp
    with Some have "time_ParseInLocation rt ((f # fs) ! 0) ts (time_Local rt) = Some t" by simp
    then show ?thesis by (intro exI [of _ 0]) simp
  next
    case None
    with Cons.prems have "try_formats rt ts fs = Inr t" by simp
    from Cons.IH [OF this] obtain i where i: "i < length fs"
      "time_ParseInLocation rt (fs ! i) ts (time_Local rt) = Some t"
      "\<forall>j < i. time_ParseInLocation rt (fs ! j) ts (time_Local rt) = None"
      by blast
    have "\<forall>j < Suc i. time_ParseInLocation rt ((f # fs) ! j) ts (time_Local rt) = None"
      using None i(3) by (auto simp: less_Suc_eq_0_disj)
    with i(1,2) show ?thesis by (intro exI [of _ "Suc i"]) simp
  qed
qed

lemma try_formats_Inl:
  "try_formats rt ts fs = Inl e \<Longrightarrow>
   e = TimestampError ts \<and>
   (\<forall>f \<in> set fs. time_ParseInLocation rt f ts (time_Local rt) = None)"
  by (induction fs) (auto split: option.splits)

text \<open>
  Claim C6, as the code has it. \<^verbatim>\<open>parseLibreLinkTimestamp\<close> is a function of the string
  (and of the parser and the local zone of the runtime) that tries the three layouts in
  their fixed order, handing each to the parser together with \<^verbatim>\<open>time.Local\<close>: if no
  layout parses the string the result is the timestamp error carrying the string, never a
  time; if layout number \<open>i\<close> parses it and no earlier one does, the result is the time
  of layout \<open>i\<close>; every success is the time of the first layout that parses, and every
  failure is the timestamp error with no layout parsing. The time is in the local zone
  when it comes from one of the first two layouts, which have no zone element, given that
  the parser places such a time in the location it is handed; a time of the third layout
  is whatever the parser returns for it, and Go's parser then takes the zone from the
  offset written in the string.
\<close>

theorem parseLibreLinkTimestamp_first_match:
  "formats = [''1/2/2006 3:04:05 PM'', ''01/02/2006 15:04:05'', ''2006-01-02T15:04:05Z07:00''] \<and>
   ((\<forall>f \<in> set formats. time_ParseInLocation rt f ts (time_Local rt) = None)
      \<longrightarrow> parseLibreLinkTimestamp rt ts = Inl (TimestampError ts)) \<and>
   (\<forall>i t. i < length formats \<and>
          time_ParseInLocation rt (formats ! i) ts (time_Local rt) = Some t \<and>
          (\<forall>j < i. time_ParseInLocation rt (formats ! j) ts (time_Local rt) = None)
      \<longrightarrow> parseLibreLinkTimestamp rt ts = Inr t) \<and>
   (\<forall>t. parseLibreLinkTimestamp rt ts = Inr t
      \<longrightarrow> (\<exists>i < length formats.
             time_ParseInLocation rt (formats ! i) ts (time_Local rt) = Some t \<and>
             (\<forall>j < i. time_ParseInLocation rt (formats ! j) ts (time_Local rt) = None))) \<and>
   (\<forall>e. parseLibreLinkTimestamp rt ts = Inl e
      \<longrightarrow> e = TimestampError ts \<and>
          (\<forall>f \<in> set formats. time_ParseInLocation rt f ts (time_Local rt) = None)) \<and>
   ((\<forall>v l t. time_ParseInLocation rt ''1/2/2006 3:04:05 PM'' v l = Some t \<longrightarrow> loc t = l) \<and>
    (\<forall>v l t. time_ParseInLocation rt ''01/02/2006 15:04:05'' v l = Some t \<longrightarrow> loc t = l)
      \<longrightarrow> (\<forall>t. parseLibreLinkTimestamp rt ts = Inr t
             \<longrightarrow> loc t = time_Local rt \<or>
                 (time_ParseInLocation rt ''1/2/2006 3:04:05 PM'' ts (time_Local rt) = None \<and>
                  time_ParseInLocation rt ''01/02/2006 15:04:05'' ts (time_Local rt) = None \<and>
                  time_ParseInLocation rt ''2006-01-02T15:04:05Z07:00'' ts (time_Local rt) =
                    Some t)))"
proof -
  have list: "formats =
      [''1/2/2006 3:04:05 PM'', ''01/02/2006 15:04:05'', ''2006-01-02T15:04:05Z07:00'']"
    by (simp add: formats_def RFC3339_def)
  have none: "(\<forall>f \<in> set formats. time_ParseInLocation rt f ts (time_Local rt) = None)
      \<longrightarrow> parseLibreLinkTimestamp rt ts = Inl (TimestampError ts)"
    unfolding parseLibreLinkTimestamp_def by (blast intro: try_formats_none)
  have first: "\<forall>i t. i < length formats \<and>
          time_ParseInLocation rt (formats ! i) ts (time_Local rt) = Some t \<and>
          (\<forall>j < i. time_ParseInLocation rt (formats ! j) ts (time_Local rt) = None)
      \<longrightarrow> parseLibreLinkTimestamp rt ts = Inr t"
    unfolding parseLibreLinkTimestamp_def by (blast intro: try_formats_first)
  have inr: "\<forall>t. parseLibreLinkTimestamp rt ts = Inr t
      \<longrightarrow> (\<exists>i < length formats.
             time_ParseInLocation rt (formats ! i) ts (time_Local rt) = Some t \<and>
             (\<forall>j < i. time_ParseInLocation rt (formats ! j) ts (time_Local rt) = None))"
    unfolding parseLibreLinkTimestamp_def by (blast dest: try_formats_Inr)
  have inl: "\<forall>e. parseLibreLinkTimestamp rt ts = Inl e
      \<longrightarrow> e = TimestampError ts \<and>
          (\<forall>f \<in> set formats. time_ParseInLocation rt f ts (time_Local rt) = None)"
    unfolding parseLibreLinkTimestamp_def by (blast dest: try_formats_Inl)
  have zone: "loc t = time_Local rt \<or>
                 (time_ParseInLocation rt ''1/2/2006 3:04:05 PM'' ts (time_Local rt) = None \<and>
                  time_ParseInLocation rt ''01/02/2006 15:04:05'' ts (time_Local rt) = None \<and>
                  time_ParseInLocation rt ''2006-01-02T15:04:05Z07:00'' ts (time_Local rt) =
                    Some t)"
    if z1: "\<forall>v l t. time_ParseInLocation rt ''1/2/2006 3:04:05 PM'' v l = Some t \<longrightarrow> loc t = l"
      and z2: "\<forall>v l t. time_ParseInLocation rt ''01/02/2006 15:04:05'' v l = Some t \<longrightarrow> loc t = l"
      and res: "parseLibreLinkTimestamp rt ts = Inr t" for t
  proof (cases "time_ParseInLocation rt ''1/2/2006 3:04:05 PM'' ts (time_Local rt)")
    case (Some u)
    with res have "u = t"
      by (simp add: parseLibreLinkTimestamp_def list)
    with Some z1 show ?thesis by blast
  next
    case n1: None
    show ?thesis
    proof (cases "time_ParseInLocation rt ''01/02/2006 15:04:05'' ts (time_Local rt)")
      case (Some u)
      with res n1 have "u = t"
        by (simp add: parseLibreLinkTimestamp_def list)
      with Some z2 show ?thesis by blast
    next
      case n2: None
      with res n1
      have "time_ParseInLocation rt ''2006-01-02T15:04:05Z07:00'' ts (time_Local rt) = Some t"
        by (simp add: parseLibreLinkTimestamp_def list split: option.splits)
      with n1 n2 show ?thesis by blast
    qed
  qed
  from list none first inr inl zone show ?thesis by blast
qed

theorem parseLibreLinkTimestamp_first_match_witness:
  "parseLibreLinkTimestamp example_runtime_zoned ''not a time'' =
     Inl (TimestampError ''not a time'') \<and>
   parseLibreLinkTimestamp example_runtime_zoned ''11/19/2024 3:14:29 PM'' =
     Inr \<lparr>unix_nanos = 1732025669000000000, loc = example_local\<rparr> \<and>
   parseLibreLinkTimestamp example_runtime_zoned ''11/19/2024 15:14:29'' =
     Inr \<lparr>unix_nanos = 1732025669000000000, loc = example_local\<rparr> \<and>
   loc \<lparr>unix_nanos = 1732025669000000000, loc = example_local\<rparr> =
     time_Local example_runtime_zoned \<and>
   parseLibreLinkTimestamp example_runtime_zoned ''2024-11-19T15:14:29-05:00'' =
     Inr example_zoned_time"
proof -
  have list: "formats =
      [''1/2/2006 3:04:05 PM'', ''01/02/2006 15:04:05'', ''2006-01-02T15:04:05Z07:00'']"
    by (simp add: formats_def RFC3339_def)
  have a: "\<forall>f \<in> set formats.
      time_ParseInLocation example_runtime_zoned f ''not a time''
        (time_Local example_runtime_zoned) = None"
    by (simp add: list example_runtime_zoned_def example_runtime_def)
  have b: "0 < length formats \<and>
      time_ParseInLocation example_runtime_zoned (formats ! 0) ''11/19/2024 3:14:29 PM''
        (time_Local example_runtime_zoned) =
        Some \<lparr>unix_nanos = 1732025669000000000, loc = example_local\<rparr> \<and>
      (\<forall>j < 0. time_ParseInLocation example_runtime_zoned (formats ! j)
         ''11/19/2024 3:14:29 PM'' (time_Local example_runtime_zoned) = None)"
    by (simp add: list example_runtime_zoned_def example_runtime_def)
  have c: "1 < length formats \<and>
      time_ParseInLocation example_runtime_zoned (formats ! 1) ''11/19/2024 15:14:29''
        (time_Local example_runtime_zoned) =
        Some \<lparr>unix_nanos = 1732025669000000000, loc = example_local\<rparr> \<and>
      (\<forall>j < 1. time_ParseInLocation example_runtime_zoned (formats ! j)
         ''11/19/2024 15:14:29'' (time_Local example_runtime_zoned) = None)"
    by (simp add: list example_runtime_zoned_def example_runtime_def)
  have d0: "time_ParseInLocation example_runtime_zoned (formats ! 0)
         ''2024-11-19T15:14:29-05:00'' (time_Local example_runtime_zoned) = None"
    and d1: "time_ParseInLocation example_runtime_zoned (formats ! 1)
         ''2024-11-19T15:14:29-05:00'' (time_Local example_runtime_zoned) = None"
    and d2: "time_ParseInLocation example_runtime_zoned (formats ! 2)
         ''2024-11-19T15:14:29-05:00'' (time_Local example_runtime_zoned) =
         Some example_zoned_time"
    by (simp_all add: list example_runtime_zoned_def)
  have d: "2 < length formats \<and>
      time_ParseInLocation example_runtime_zoned (formats ! 2) ''2024-11-19T15:14:29-05:00''
        (time_Local example_runtime_zoned) = Some example_zoned_time \<and>
      (\<forall>j < 2. time_ParseInLocation example_runtime_zoned (formats ! j)
         ''2024-11-19T15:14:29-05:00'' (time_Local example_runtime_zoned) = None)"
  proof (intro conjI allI impI)
    show "2 < length formats" by (simp add: list)
    show "time_ParseInLocation example_runtime_zoned (formats ! 2)
        ''2024-11-19T15:14:29-05:00'' (time_Local example_runtime_zoned) =
        Some example_zoned_time"
      by (rule d2)
    fix j :: nat
    assume "j < 2"
    then have "j = 0 \<or> j = 1" by arith
    then show "time_ParseInLocation example_runtime_zoned (formats ! j)
        ''2024-11-19T15:14:29-05:00'' (time_Local example_runtime_zoned) = None"
      using d0 d1 by blast
  qed
  have z: "(\<forall>v l t. time_ParseInLocation example_runtime_zoned ''1/2/2006 3:04:05 PM'' v l =
              Some t \<longrightarrow> loc t = l) \<and>
    (\<forall>v l t. time_ParseInLocation example_runtime_zoned ''01/02/2006 15:04:05'' v l =
              Some t \<longrightarrow> loc t = l)"
    by (auto simp: example_runtime_zoned_def split: if_splits)
  note none = parseLibreLinkTimestamp_first_match
    [of example_runtime_zoned "''not a time''", THEN conjunct2, THEN conjunct1]
  note first = parseLibreLinkTimestamp_first_match
    [of example_runtime_zoned "''11/19/2024 3:14:29 PM''",
     THEN conjunct2, THEN conjunct2, THEN conjunct1]
  note second = parseLibreLinkTimestamp_first_match
    [of example_runtime_zoned "''11/19/2024 15:14:29''",
     THEN conjunct2, THEN conjunct2, THEN conjunct1]
  note third = parseLibreLinkTimestamp_first_match
    [of example_runtime_zoned "''2024-11-19T15:14:29-05:00''",
     THEN conjunct2, THEN conjunct2, THEN conjunct1]
  note zone = parseLibreLinkTimestamp_first_match
    [of example_runtime_zoned "''11/19/2024 3:14:29 PM''",
     THEN conjunct2, THEN conjunct2, THEN conjunct2, THEN conjunct2, THEN conjunct2]
  have r0: "parseLibreLinkTimestamp example_runtime_zoned ''not a time'' =
     Inl (TimestampError ''not a time'')"
    using none a by (rule mp)
  have r1: "parseLibreLinkTimestamp example_runtime_zoned ''11/19/2024 3:14:29 PM'' =
          Inr \<lparr>unix_nanos = 1732025669000000000, loc = example_local\<rparr>"
    by (rule first [rule_format, OF b])
  have r2: "parseLibreLinkTimestamp example_runtime_zoned ''11/19/2024 15:14:29'' =
          Inr \<lparr>unix_nanos = 1732025669000000000, loc = example_local\<rparr>"
    by (rule second [rule_format, OF c])
  have r3: "parseLibreLinkTimestamp example_runtime_zoned ''2024-11-19T15:14:29-05:00'' =
          Inr example_zoned_time"
    by (rule third [rule_format, OF d])
  from zone z
  have "\<forall>t. parseLibreLinkTimestamp example_runtime_zoned ''11/19/2024 3:14:29 PM'' = Inr t
             \<longrightarrow> loc t = time_Local example_runtime_zoned \<or>
                 (time_ParseInLocation example_runtime_zoned ''1/2/2006 3:04:05 PM''
                    ''11/19/2024 3:14:29 PM'' (time_Local example_runtime_zoned) = None \<and>
                  time_ParseInLocation example_runtime_zoned ''01/02/2006 15:04:05''
                    ''11/19/2024 3:14:29 PM'' (time_Local example_runtime_zoned) = None \<and>
                  time_ParseInLocation example_runtime_zoned ''2006-01-02T15:04:05Z07:00''
                    ''11/19/2024 3:14:29 PM'' (time_Local example_runtime_zoned) =
                    Some t)"
    by (rule mp)
  from this [rule_format, OF r1]
  have "loc \<lparr>unix_nanos = 1732025669000000000, loc = example_local\<rparr> =
          time_Local example_runtime_zoned \<or>
        time_ParseInLocation example_runtime_zoned ''1/2/2006 3:04:05 PM''
          ''11/19/2024 3:14:29 PM'' (time_Local example_runtime_zoned) = None"
    by (elim disjE conjE) (rule disjI1, assumption, rule disjI2, assumption)
  with b have r4: "loc \<lparr>unix_nanos = 1732025669000000000, loc = example_local\<rparr> =
          time_Local example_runtime_zoned"
    by (simp add: list)
  from r0 r1 r2 r4 r3 show ?thesis by (intro conjI)
qed

text \<open>
  Claim C6 as stated fails for a string of the third layout: "2024-11-19T15:14:29-05:00"
  is parsed with success, and the time returned is five hours west of UTC while the
  local zone is one hour east of it at that instant, so it is not interpreted in the
  local zone.
\<close>

theorem parseLibreLinkTimestamp_zone_counterexample:
  "parseLibreLinkTimestamp example_runtime_zoned ''2024-11-19T15:14:29-05:00'' =
     Inr example_zoned_time \<and>
   loc example_zoned_time (unixSec example_zoned_time) = - 18000 \<and>
   time_Local example_runtime_zoned (unixSec example_zoned_time) = 3600 \<and>
   Format_RFC3339 example_zoned_time = ''2024-11-19T15:14:29-05:00''"
proof -
  have p: "parseLibreLinkTimestamp example_runtime_zoned ''2024-11-19T15:14:29-05:00'' =
     Inr example_zoned_time"
    by (simp add: parseLibreLinkTimestamp_def formats_def RFC3339_def
          example_runtime_zoned_def)
  have z: "loc example_zoned_time (unixSec example_zoned_time) = - 18000"
    "time_Local example_runtime_zoned (unixSec example_zoned_time) = 3600"
    by (simp_all add: example_zoned_time_def example_zone_west_def
          example_runtime_zoned_def example_runtime_def example_local_def)
  have f: "Format_RFC3339 example_zoned_time = ''2024-11-19T15:14:29-05:00''"
    by code_simp
  from p z f show ?thesis by blast
qed

section \<open>The two time representations of an entry\<close>














section \<open>Properties of the sync cycle\<close>

text \<open>Logging sends nothing, and \<^verbatim>\<open>PostGlucoseReading\<close> does not read the log.\<close>

lemma sent_log_Println: "sent (log_Println l w) = sent w"
  by (simp add: log_Println_def)

lemma logged_log_Println: "logged (log_Println l w) = logged w @ [l]"
  by (simp add: log_Println_def)

lemma PostGlucoseReading_log_fst:
  "fst (PostGlucoseReading rt c reading (log_Println l w)) =
   fst (PostGlucoseReading rt c reading w)"
  by (cases reading)
     (auto simp: PostGlucoseReading_def Do_def Let_def log_Println_def
           split: option.splits http_reply.splits)

lemma PostGlucoseReading_log_sent:
  "sent (snd (PostGlucoseReading rt c reading (log_Println l w))) =
   sent (snd (PostGlucoseReading rt c reading w))"
  by (cases reading)
     (auto simp: PostGlucoseReading_def Do_def Let_def log_Println_def
           split: option.splits http_reply.splits)

lemma PostGlucoseReading_keeps_log:
  "set (logged w) \<subseteq> set (logged (snd (PostGlucoseReading rt c reading w)))"
  by (cases reading)
     (auto simp: PostGlucoseReading_def Do_def Let_def log_Println_def
           split: option.splits http_reply.splits)

text \<open>The last step of a cycle, for any outcome \<open>P\<close> of the post.\<close>

lemma deliver_step:
  fixes P :: "error option \<times> world"
  shows "fst (case P of (Some err, w6) \<Rightarrow> (Returns (Some err), ll, w6)
                | (None, w6) \<Rightarrow> (Returns None, ll, log_Println LogPosted w6)) =
           Returns (fst P)"
    and "fst (snd (case P of (Some err, w6) \<Rightarrow> (Returns (Some err), ll, w6)
                | (None, w6) \<Rightarrow> (Returns None, ll, log_Println LogPosted w6))) = ll"
    and "sent (snd (snd (case P of (Some err, w6) \<Rightarrow> (Returns (Some err), ll, w6)
                | (None, w6) \<Rightarrow> (Returns None, ll, log_Println LogPosted w6)))) =
           sent (snd P)"
    and "set (logged (snd P)) \<subseteq>
         set (logged (snd (snd (case P of (Some err, w6) \<Rightarrow> (Returns (Some err), ll, w6)
                | (None, w6) \<Rightarrow> (Returns None, ll, log_Println LogPosted w6)))))"
  by (cases P; cases "fst P"; auto simp: log_Println_def)+

text \<open>
  A cycle in which the reading \<open>r\<close> is fetched ends with the post of \<open>r\<close>, made in the
  world after the fetch with the reading and, if the reading is stale, the warning logged.
\<close>

lemma syncGlucoseData_after_fetch:
  assumes "Login rt ll (log_Println LogFetching w) = (Returns None, ll', w1)"
      and "GetConnections rt ll' w1 = (Inr cs, w2)"
      and "cs \<noteq> []"
      and "GetLatestReading rt ll' (PatientID (cs ! 0)) w2 = (Inr (Some r), w3)"
  shows "syncGlucoseData rt now ll ns w =
     (case PostGlucoseReading rt ns (Some r)
             (if time_Since now (Timestamp r) > 15 * Minute
              then log_Println LogStaleWarning
                     (log_Println (LogGlucoseReading (Format_RFC3339 (Timestamp r))) w3)
              else log_Println (LogGlucoseReading (Format_RFC3339 (Timestamp r))) w3) of
        (Some err, w6) \<Rightarrow> (Returns (Some err), ll', w6)
      | (None, w6) \<Rightarrow> (Returns None, ll', log_Println LogPosted w6))"
  using assms by (simp add: syncGlucoseData_def Let_def)

lemma GetConnections_Inr_nonempty: "GetConnections rt c w = (Inr cs, w') \<Longrightarrow> cs \<noteq> []"
  by (auto simp: GetConnections_def Do_def
           split: if_splits http_reply.splits option.splits)

text \<open>
  What a cycle returns, the client it leaves and the requests it has sent do not depend on
  the clock: the three are given by an expression in which \<open>now\<close> does not occur.
\<close>

lemma syncGlucoseData_clock_free:
  "(fst (syncGlucoseData rt now ll ns w), fst (snd (syncGlucoseData rt now ll ns w)),
    sent (snd (snd (syncGlucoseData rt now ll ns w)))) =
   (case Login rt ll (log_Println LogFetching w) of
      (Panics, ll', w1) \<Rightarrow> (Panics, ll', sent w1)
    | (Returns (Some err), ll', w1) \<Rightarrow> (Returns (Some err), ll', sent w1)
    | (Returns None, ll', w1) \<Rightarrow>
        (case GetConnections rt ll' w1 of
           (Inl err, w2) \<Rightarrow> (Returns (Some err), ll', sent w2)
         | (Inr cs, w2) \<Rightarrow>
             if length cs = 0 then (Returns None, ll', sent w2)
             else
               (case GetLatestReading rt ll' (PatientID (cs ! 0)) w2 of
                  (Inl err, w3) \<Rightarrow> (Returns (Some err), ll', sent w3)
                | (Inr None, w3) \<Rightarrow> (Returns None, ll', sent w3)
                | (Inr (Some r), w3) \<Rightarrow>
                    (Returns (fst (PostGlucoseReading rt ns (Some r) w3)), ll',
                     sent (snd (PostGlucoseReading rt ns (Some r) w3))))))"
proof -
  obtain res ll' w1 where L: "Login rt ll (log_Println LogFetching w) = (res, ll', w1)"
    by (cases "Login rt ll (log_Println LogFetching w)") auto
  show ?thesis
  proof (cases res)
    case Panics
    with L show ?thesis by (simp add: syncGlucoseData_def)
  next
    case (Returns eo)
    show ?thesis
    proof (cases eo)
      case (Some e)
      with L Returns show ?thesis by (simp add: syncGlucoseData_def)
    next
      case None
      obtain cres w2 where C: "GetConnections rt ll' w1 = (cres, w2)"
        by (cases "GetConnections rt ll' w1") auto
      show ?thesis
      proof (cases cres)
        case (Inl e)
        with L Returns None C show ?thesis by (simp add: syncGlucoseData_def)
      next
        case (Inr cs)
        show ?thesis
        proof (cases "length cs = 0")
          case True
          with L Returns None C Inr show ?thesis
            by (simp add: syncGlucoseData_def sent_log_Println)
        next
          case False
          obtain gres w3 where
            G: "GetLatestReading rt ll' (PatientID (cs ! 0)) w2 = (gres, w3)"
            by (cases "GetLatestReading rt ll' (PatientID (cs ! 0)) w2") auto
          show ?thesis
          proof (cases gres)
            case (Inl e)
            with L Returns None C Inr False G show ?thesis
              by (simp add: syncGlucoseData_def)
          next
            case inr: (Inr ro)
            show ?thesis
            proof (cases ro)
              case none: None
              with L Returns None C Inr False G inr show ?thesis
                by (simp add: syncGlucoseData_def sent_log_Println)
            next
              case some: (Some r)
              from L Returns None C Inr False G inr some show ?thesis
                by (simp add: syncGlucoseData_def Let_def deliver_step
                      PostGlucoseReading_log_fst PostGlucoseReading_log_sent)
            qed
          qed
        qed
      qed
    qed
  qed
qed

text \<open>
  Claim C8. In a cycle in which \<^verbatim>\<open>Login\<close> and \<^verbatim>\<open>GetConnections\<close> succeed and
  \<^verbatim>\<open>GetLatestReading\<close> returns the reading \<open>r\<close>, a timestamp more than 15 minutes before
  \<open>now\<close> does not stop the delivery: the cycle returns what \<^verbatim>\<open>PostGlucoseReading\<close> of
  \<open>r\<close> returns and has sent what that call sends (the POST of the entry of \<open>r\<close>, when
  the entry serializes and the URL gives a request), and the warning is in the log. And
  for every cycle whatsoever, the result, the client and the requests sent are the same
  for any two values of the clock.
\<close>

theorem stale_reading_is_still_posted:
  "(Login rt ll (log_Println LogFetching w) = (Returns None, ll', w1) \<and>
    GetConnections rt ll' w1 = (Inr cs, w2) \<and>
    GetLatestReading rt ll' (PatientID (cs ! 0)) w2 = (Inr (Some r), w3) \<and>
    time_Since now (Timestamp r) > 15 * Minute
    \<longrightarrow> fst (syncGlucoseData rt now ll ns w) =
          Returns (fst (PostGlucoseReading rt ns (Some r) w3)) \<and>
        sent (snd (snd (syncGlucoseData rt now ll ns w))) =
          sent (snd (PostGlucoseReading rt ns (Some r) w3)) \<and>
        LogStaleWarning \<in> set (logged (snd (snd (syncGlucoseData rt now ll ns w)))) \<and>
        (\<forall>b. json_Marshal_entries rt [make_entry r] = Some b \<and>
             http_NewRequest_ok rt (effective_baseURL (ns_baseURL ns) @ ''/api/v1/entries'')
             \<longrightarrow> sent (snd (snd (syncGlucoseData rt now ll ns w))) =
                   sent w3 @ [entries_request ns b])) \<and>
   (\<forall>now'. fst (syncGlucoseData rt now' ll ns w) = fst (syncGlucoseData rt now ll ns w) \<and>
           fst (snd (syncGlucoseData rt now' ll ns w)) =
             fst (snd (syncGlucoseData rt now ll ns w)) \<and>
           sent (snd (snd (syncGlucoseData rt now' ll ns w))) =
             sent (snd (snd (syncGlucoseData rt now ll ns w))))"
proof (intro conjI impI allI)
  fix now'
  have "(fst (syncGlucoseData rt now' ll ns w), fst (snd (syncGlucoseData rt now' ll ns w)),
         sent (snd (snd (syncGlucoseData rt now' ll ns w)))) =
        (fst (syncGlucoseData rt now ll ns w), fst (snd (syncGlucoseData rt now ll ns w)),
         sent (snd (snd (syncGlucoseData rt now ll ns w))))"
    by (simp only: syncGlucoseData_clock_free)
  then show "fst (syncGlucoseData rt now' ll ns w) = fst (syncGlucoseData rt now ll ns w)"
    and "fst (snd (syncGlucoseData rt now' ll ns w)) =
           fst (snd (syncGlucoseData rt now ll ns w))"
    and "sent (snd (snd (syncGlucoseData rt now' ll ns w))) =
           sent (snd (snd (syncGlucoseData rt now ll ns w)))"
    by simp_all
next
  assume A: "Login rt ll (log_Println LogFetching w) = (Returns None, ll', w1) \<and>
    GetConnections rt ll' w1 = (Inr cs, w2) \<and>
    GetLatestReading rt ll' (PatientID (cs ! 0)) w2 = (Inr (Some r), w3) \<and>
    time_Since now (Timestamp r) > 15 * Minute"
  then have L: "Login rt ll (log_Println LogFetching w) = (Returns None, ll', w1)"
    and C: "GetConnections rt ll' w1 = (Inr cs, w2)"
    and G: "GetLatestReading rt ll' (PatientID (cs ! 0)) w2 = (Inr (Some r), w3)"
    and stale: "time_Since now (Timestamp r) > 15 * Minute"
    by simp_all
  from C have ne: "cs \<noteq> []" by (rule GetConnections_Inr_nonempty)
  let ?w5 = "log_Println LogStaleWarning
               (log_Println (LogGlucoseReading (Format_RFC3339 (Timestamp r))) w3)"
  have run: "syncGlucoseData rt now ll ns w =
     (case PostGlucoseReading rt ns (Some r) ?w5 of
        (Some err, w6) \<Rightarrow> (Returns (Some err), ll', w6)
      | (None, w6) \<Rightarrow> (Returns None, ll', log_Println LogPosted w6))"
    using syncGlucoseData_after_fetch [OF L C ne G, of now ns] stale by simp
  show res: "fst (syncGlucoseData rt now ll ns w) =
          Returns (fst (PostGlucoseReading rt ns (Some r) w3))"
    by (simp add: run deliver_step PostGlucoseReading_log_fst)
  show snt: "sent (snd (snd (syncGlucoseData rt now ll ns w))) =
          sent (snd (PostGlucoseReading rt ns (Some r) w3))"
    by (simp add: run deliver_step PostGlucoseReading_log_sent)
  have "LogStaleWarning \<in> set (logged ?w5)"
    by (simp add: logged_log_Println)
  also have "set (logged ?w5) \<subseteq> set (logged (snd (PostGlucoseReading rt ns (Some r) ?w5)))"
    by (rule PostGlucoseReading_keeps_log)
  also have "\<dots> \<subseteq> set (logged (snd (snd (syncGlucoseData rt now ll ns w))))"
    unfolding run by (rule deliver_step(4))
  finally show "LogStaleWarning \<in> set (logged (snd (snd (syncGlucoseData rt now ll ns w))))" .
  fix b
  assume "json_Marshal_entries rt [make_entry r] = Some b \<and>
          http_NewRequest_ok rt (effective_baseURL (ns_baseURL ns) @ ''/api/v1/entries'')"
  then show "sent (snd (snd (syncGlucoseData rt now ll ns w))) =
               sent w3 @ [entries_request ns b]"
    using PostGlucoseReading_sends [of rt r b ns w3] snt by simp
qed
text \<open>The steps of the concrete cycle.\<close>

lemma example_cycle_login:
  "Login example_runtime example_client (log_Println LogFetching empty_world) =
     (Returns None, example_session,
      \<lparr>sent = [login_request example_runtime example_client], logged = [LogFetching]\<rparr>)"
  by (simp add: Login_def Do_def log_Println_def example_defs request_defs)

lemma example_cycle_connections:
  "GetConnections example_runtime example_session
     \<lparr>sent = [login_request example_runtime example_client], logged = [LogFetching]\<rparr> =
     (Inr [\<lparr>PatientID = ''P1'', FirstName = ''Ada'', LastName = ''L'', SensorState = 0\<rparr>],
      \<lparr>sent = [login_request example_runtime example_client,
               connections_request example_runtime example_session],
       logged = [LogFetching]\<rparr>)"
  by (simp add: GetConnections_def Do_def example_defs request_defs)

lemma example_cycle_reading:
  "GetLatestReading example_runtime example_session
     (PatientID ([\<lparr>PatientID = ''P1'', FirstName = ''Ada'', LastName = ''L'',
                    SensorState = 0\<rparr>] ! 0))
     \<lparr>sent = [login_request example_runtime example_client,
              connections_request example_runtime example_session],
      logged = [LogFetching]\<rparr> =
     (Inr (Some example_reading),
      \<lparr>sent = [login_request example_runtime example_client,
               connections_request example_runtime example_session,
               glucose_request example_runtime example_session ''P1''],
       logged = [LogFetching]\<rparr>)"
  by (simp add: GetLatestReading_def Do_def parseLibreLinkTimestamp_def formats_def
        trendArrowToString_def example_defs request_defs)

lemma example_cycle_stale:
  "time_Since example_late (Timestamp example_reading) > 15 * Minute"
  by (simp add: time_Since_def Minute_def example_late_def example_reading_def)

lemma example_cycle_soon:
  "LogStaleWarning \<notin> set (logged (snd (snd (syncGlucoseData example_runtime example_soon
      example_client example_nightscout empty_world))))"
  by code_simp

theorem stale_reading_is_still_posted_witness:
  "time_Since example_late (Timestamp example_reading) > 15 * Minute \<and>
   fst (syncGlucoseData example_runtime example_late example_client example_nightscout
          empty_world) = Returns None \<and>
   sent (snd (snd (syncGlucoseData example_runtime example_late example_client
                     example_nightscout empty_world))) =
     [login_request example_runtime example_client,
      connections_request example_runtime example_session,
      glucose_request example_runtime example_session ''P1'',
      entries_request example_nightscout ''2024-11-19T15:14:29+01:00''] \<and>
   LogStaleWarning \<in> set (logged (snd (snd (syncGlucoseData example_runtime example_late
      example_client example_nightscout empty_world)))) \<and>
   LogStaleWarning \<notin> set (logged (snd (snd (syncGlucoseData example_runtime example_soon
      example_client example_nightscout empty_world)))) \<and>
   sent (snd (snd (syncGlucoseData example_runtime example_soon example_client
                     example_nightscout empty_world))) =
   sent (snd (snd (syncGlucoseData example_runtime example_late example_client
                     example_nightscout empty_world)))"
proof -
  let ?w3 = "\<lparr>sent = [login_request example_runtime example_client,
               connections_request example_runtime example_session,
               glucose_request example_runtime example_session ''P1''],
       logged = [LogFetching]\<rparr>"
  have m: "json_Marshal_entries example_runtime [make_entry example_reading] =
             Some ''2024-11-19T15:14:29+01:00''"
    by (simp add: example_entry example_runtime_def)
  have ok: "http_NewRequest_ok example_runtime
              (effective_baseURL (ns_baseURL example_nightscout) @ ''/api/v1/entries'')"
    by (simp add: example_runtime_def)
  have post: "fst (PostGlucoseReading example_runtime example_nightscout
                     (Some example_reading) ?w3) = None"
    by (simp add: PostGlucoseReading_def m Do_def log_Println_def Let_def
          req_url_entries_request effective_baseURL_def HasPrefix_def
          example_runtime_def example_nightscout_def)
  note inst = stale_reading_is_still_posted
    [of example_runtime example_client empty_world example_session
        "\<lparr>sent = [login_request example_runtime example_client], logged = [LogFetching]\<rparr>"
        "[\<lparr>PatientID = ''P1'', FirstName = ''Ada'', LastName = ''L'', SensorState = 0\<rparr>]"
        "\<lparr>sent = [login_request example_runtime example_client,
                 connections_request example_runtime example_session],
          logged = [LogFetching]\<rparr>"
        example_reading ?w3 example_late example_nightscout]
  from inst example_cycle_login example_cycle_connections example_cycle_reading
    example_cycle_stale
  have late: "fst (syncGlucoseData example_runtime example_late example_client
                     example_nightscout empty_world) =
          Returns (fst (PostGlucoseReading example_runtime example_nightscout
                          (Some example_reading) ?w3))"
    and warn: "LogStaleWarning \<in> set (logged (snd (snd (syncGlucoseData example_runtime
                 example_late example_client example_nightscout empty_world))))"
    and snt: "\<forall>b. json_Marshal_entries example_runtime [make_entry example_reading] = Some b \<and>
             http_NewRequest_ok example_runtime
               (effective_baseURL (ns_baseURL example_nightscout) @ ''/api/v1/entries'')
             \<longrightarrow> sent (snd (snd (syncGlucoseData example_runtime example_late example_client
                                  example_nightscout empty_world))) =
                   sent ?w3 @ [entries_request example_nightscout b]"
    and soon: "sent (snd (snd (syncGlucoseData example_runtime example_soon example_client
                     example_nightscout empty_world))) =
               sent (snd (snd (syncGlucoseData example_runtime example_late example_client
                     example_nightscout empty_world)))"
    by blast+
  from snt m ok
  have "sent (snd (snd (syncGlucoseData example_runtime example_late example_client
                                  example_nightscout empty_world))) =
        sent ?w3 @ [entries_request example_nightscout ''2024-11-19T15:14:29+01:00'']"
    by blast
  then have snt': "sent (snd (snd (syncGlucoseData example_runtime example_late example_client
                     example_nightscout empty_world))) =
     [login_request example_runtime example_client,
      connections_request example_runtime example_session,
      glucose_request example_runtime example_session ''P1'',
      entries_request example_nightscout ''2024-11-19T15:14:29+01:00'']"
    by simp
  from late post have res: "fst (syncGlucoseData example_runtime example_late example_client
      example_nightscout empty_world) = Returns None"
    by simp
  from example_cycle_stale res snt' warn example_cycle_soon soon show ?thesis by blast
qed

end
